theory Spec2Isabelle
  imports Main "HOL-Library.Product_Lexorder" "HOL-Library.List_Lexorder"
begin

section \<open>JavaScript strings\<close>

text \<open>
  A JavaScript string is modelled as a \<open>string\<close> whose characters are the code units
  below 256.  \<open>undefined\<close> is \<open>None\<close> of an option type.
\<close>

definition truthy :: "string option \<Rightarrow> bool" where
  \<comment> \<open>the truthiness of a value that is a string, \<open>null\<close> or \<open>undefined\<close>\<close>
  "truthy v = (case v of None \<Rightarrow> False | Some s \<Rightarrow> s \<noteq> [])"

fun split_on :: "char \<Rightarrow> string \<Rightarrow> string list" where
  \<comment> \<open>\<open>s.split(c)\<close> for a one-character separator: never empty\<close>
  "split_on c [] = [[]]"
| "split_on c (x # xs) =
     (if x = c then [] # split_on c xs
      else (case split_on c xs of [] \<Rightarrow> [[x]] | w # ws \<Rightarrow> (x # w) # ws))"

definition nth_opt :: "'a list \<Rightarrow> nat \<Rightarrow> 'a option" where
  \<comment> \<open>\<open>xs[i]\<close>, \<open>undefined\<close> out of range\<close>
  "nth_opt xs i = (if i < length xs then Some (xs ! i) else None)"

definition is_space :: "char \<Rightarrow> bool" where
  "is_space c = (c \<in> set [CHR 0x09, CHR 0x0A, CHR 0x0B, CHR 0x0C, CHR 0x0D, CHR 0x20, CHR 0xA0])"

definition trim :: "string \<Rightarrow> string" where
  "trim s = rev (dropWhile is_space (rev (dropWhile is_space s)))"

definition is_digit :: "char \<Rightarrow> bool" where
  "is_digit c = (c \<in> set ''0123456789'')"

definition is_letter :: "char \<Rightarrow> bool" where
  "is_letter c = (c \<in> set ''abcdefghijklmnopqrstuvwxyzABCDEFGHIJKLMNOPQRSTUVWXYZ'')"

definition digit_val :: "char \<Rightarrow> int" where
  "digit_val c = of_char c - 48"

definition dec_val :: "string \<Rightarrow> int" where
  \<comment> \<open>the number a string of decimal digits denotes\<close>
  "dec_val s = foldl (\<lambda>n c. 10 * n + digit_val c) 0 s"

fun str_less :: "string \<Rightarrow> string \<Rightarrow> bool" where
  \<comment> \<open>\<open>a < b\<close> on strings: by code unit, a proper prefix first\<close>
  "str_less [] [] = False"
| "str_less [] (y # ys) = True"
| "str_less (x # xs) [] = False"
| "str_less (x # xs) (y # ys) =
     (if x = y then str_less xs ys else (of_char x :: int) < of_char y)"

section \<open>The semver library\<close>

text \<open>
  The planner imports \<open>gt\<close>, \<open>gte\<close>, \<open>lt\<close>, \<open>lte\<close> and \<open>valid\<close> from the
  \<open>semver\<close> package.  They are modelled after that package's strict mode: a version
  is at most 256 characters long and, once trimmed, reads
  \<open>[v]MAJOR.MINOR.PATCH[-PRERELEASE][+BUILD]\<close>; the three numbers have no leading zero
  and do not exceed \<open>2^53 - 1\<close>.  Constructing a version from any other string throws,
  which is \<open>None\<close> here.  Numeric prerelease identifiers are compared as exact integers.
\<close>

datatype ident = Num int | Alnum string

record semver =
  major :: int
  minor :: int
  patch :: int
  prerelease :: "ident list"
  build :: "string list"

definition MAX_LENGTH :: int where
  "MAX_LENGTH = 256"

definition MAX_SAFE_INTEGER :: int where
  "MAX_SAFE_INTEGER = 9007199254740991"

definition numeric_identifier :: "string \<Rightarrow> bool" where
  \<comment> \<open>\<open>0|[1-9]\d*\<close>\<close>
  "numeric_identifier s = (s \<noteq> [] \<and> list_all is_digit s \<and> (hd s = CHR ''0'' \<longrightarrow> length s = 1))"

definition build_identifier :: "string \<Rightarrow> bool" where
  \<comment> \<open>\<open>[0-9A-Za-z-]+\<close>\<close>
  "build_identifier s =
     (s \<noteq> [] \<and> list_all (\<lambda>c. is_digit c \<or> is_letter c \<or> c = CHR ''-'') s)"

definition prerelease_identifier :: "string \<Rightarrow> bool" where
  \<comment> \<open>\<open>0|[1-9]\d*|\d*[a-zA-Z-][a-zA-Z0-9-]*\<close>\<close>
  "prerelease_identifier s =
     (numeric_identifier s \<or> (build_identifier s \<and> \<not> list_all is_digit s))"

definition to_ident :: "string \<Rightarrow> ident" where
  "to_ident s = (if list_all is_digit s then Num (dec_val s) else Alnum s)"

definition cut_at :: "char \<Rightarrow> string \<Rightarrow> string \<times> string option" where
  \<comment> \<open>the text before the first \<open>c\<close>, and the text after it when there is one\<close>
  "cut_at c s =
     (takeWhile (\<lambda>x. x \<noteq> c) s,
      (case dropWhile (\<lambda>x. x \<noteq> c) s of [] \<Rightarrow> None | _ # r \<Rightarrow> Some r))"

definition parse_semver :: "string \<Rightarrow> semver option" where
  \<comment> \<open>\<open>new SemVer(version)\<close>\<close>
  "parse_semver version =
     (if int (length version) > MAX_LENGTH then None
      else
        let t = trim version;
            t = (case t of c # r \<Rightarrow> (if c = CHR ''v'' then r else t) | [] \<Rightarrow> t);
            (s1, bld) = cut_at CHR ''+'' t;
            (mainv, pre) = cut_at CHR ''-'' s1;
            nums = split_on CHR ''.'' mainv;
            pres = (case pre of None \<Rightarrow> [] | Some p \<Rightarrow> split_on CHR ''.'' p);
            blds = (case bld of None \<Rightarrow> [] | Some b \<Rightarrow> split_on CHR ''.'' b)
        in if length nums = 3 \<and> list_all numeric_identifier nums
              \<and> list_all prerelease_identifier pres \<and> list_all build_identifier blds
              \<and> list_all (\<lambda>n. dec_val n \<le> MAX_SAFE_INTEGER) nums
           then Some \<lparr> major = dec_val (nums ! 0), minor = dec_val (nums ! 1),
                       patch = dec_val (nums ! 2), prerelease = map to_ident pres,
                       build = blds \<rparr>
           else None)"

definition valid :: "string \<Rightarrow> bool" where
  \<comment> \<open>\<open>valid(v)\<close> is truthy\<close>
  "valid v = (parse_semver v \<noteq> None)"

fun compareIdentifiers :: "ident \<Rightarrow> ident \<Rightarrow> int" where
  "compareIdentifiers (Num a) (Num b) = (if a = b then 0 else if a < b then -1 else 1)"
| "compareIdentifiers (Num a) (Alnum b) = -1"
| "compareIdentifiers (Alnum a) (Num b) = 1"
| "compareIdentifiers (Alnum a) (Alnum b) = (if a = b then 0 else if str_less a b then -1 else 1)"

fun comparePreLoop :: "ident list \<Rightarrow> ident list \<Rightarrow> int" where
  "comparePreLoop [] [] = 0"
| "comparePreLoop (a # as) [] = 1"
| "comparePreLoop [] (b # bs) = -1"
| "comparePreLoop (a # as) (b # bs) =
     (if a = b then comparePreLoop as bs else compareIdentifiers a b)"

definition comparePre :: "semver \<Rightarrow> semver \<Rightarrow> int" where
  "comparePre x y =
     (if prerelease x \<noteq> [] \<and> prerelease y = [] then -1
      else if prerelease x = [] \<and> prerelease y \<noteq> [] then 1
      else if prerelease x = [] \<and> prerelease y = [] then 0
      else comparePreLoop (prerelease x) (prerelease y))"

definition compareNum :: "int \<Rightarrow> int \<Rightarrow> int" where
  "compareNum a b = (if a = b then 0 else if a < b then -1 else 1)"

definition compareMain :: "semver \<Rightarrow> semver \<Rightarrow> int" where
  "compareMain x y =
     (if compareNum (major x) (major y) \<noteq> 0 then compareNum (major x) (major y)
      else if compareNum (minor x) (minor y) \<noteq> 0 then compareNum (minor x) (minor y)
      else compareNum (patch x) (patch y))"

definition compare_semver :: "semver \<Rightarrow> semver \<Rightarrow> int" where
  "compare_semver x y = (if compareMain x y \<noteq> 0 then compareMain x y else comparePre x y)"

text \<open>
  The order that \<open>compare_semver\<close> decides is the lexicographic order of these keys
  (lemma \<open>compare_semver_key\<close>).
\<close>

type_synonym key = "int \<times> int \<times> int \<times> bool \<times> (bool \<times> int \<times> int list) list"



definition compare :: "string \<Rightarrow> string \<Rightarrow> int option" where
  \<comment> \<open>\<open>compare(a, b)\<close>; \<open>None\<close> when either argument is not a version\<close>
  "compare a b =
     (case parse_semver a of None \<Rightarrow> None
      | Some x \<Rightarrow> (case parse_semver b of None \<Rightarrow> None | Some y \<Rightarrow> Some (compare_semver x y)))"

definition gt :: "string \<Rightarrow> string \<Rightarrow> bool option" where
  "gt a b = map_option (\<lambda>c. c > 0) (compare a b)"

definition gte :: "string \<Rightarrow> string \<Rightarrow> bool option" where
  "gte a b = map_option (\<lambda>c. c \<ge> 0) (compare a b)"

definition lt :: "string \<Rightarrow> string \<Rightarrow> bool option" where
  "lt a b = map_option (\<lambda>c. c < 0) (compare a b)"

definition lte :: "string \<Rightarrow> string \<Rightarrow> bool option" where
  "lte a b = map_option (\<lambda>c. c \<le> 0) (compare a b)"

section \<open>normalizeVersion\<close>

definition or0 :: "string option \<Rightarrow> string" where
  \<comment> \<open>\<open>${x || 0}\<close>\<close>
  "or0 x = (if truthy x then the x else ''0'')"

fun first_gt0 :: "string list \<Rightarrow> string" where
  \<comment> \<open>the loop over \<open>variationsToCheck\<close>; a throwing \<open>gt\<close> is caught and skipped\<close>
  "first_gt0 [] = ''0.0.0''"
| "first_gt0 (variation # rest) =
     (if gt variation ''0.0.0'' = Some True then variation else first_gt0 rest)"

definition variationsToCheck :: "string \<Rightarrow> string list" where
  "variationsToCheck version =
     (let parts = split_on CHR ''-'' version;
          semver = parts ! 0;
          prereleaseTag = nth_opt parts 1;
          nums = split_on CHR ''.'' semver;
          major = nth_opt nums 0;
          minor = nth_opt nums 1;
          patch = nth_opt nums 2;
          newSemver = or0 major @ ''.'' @ or0 minor @ ''.'' @ or0 patch;
          newVersion = (if truthy prereleaseTag then newSemver @ ''-'' @ the prereleaseTag
                        else newSemver);
          withoutPatch = or0 major @ ''.'' @ or0 minor @ ''.0'';
          withoutPatchAndMinor = or0 major @ ''.0.0''
      in [newVersion, newSemver, withoutPatch, withoutPatchAndMinor])"

definition normalizeVersion :: "string \<Rightarrow> string" where
  "normalizeVersion version = first_gt0 (variationsToCheck version)"

text \<open>
  The candidates as the specification words them, from the semver part and the prerelease
  part of the input, and the two ways to read "the prerelease part".
\<close>

definition candidates :: "string \<Rightarrow> string option \<Rightarrow> string list" where
  "candidates semver prereleaseTag =
     (let nums = split_on CHR ''.'' semver;
          x = or0 (nth_opt nums 0);
          y = or0 (nth_opt nums 1);
          z = or0 (nth_opt nums 2);
          semverOnly = x @ ''.'' @ y @ ''.'' @ z;
          full = (if truthy prereleaseTag then semverOnly @ ''-'' @ the prereleaseTag
                  else semverOnly)
      in [full, semverOnly, x @ ''.'' @ y @ ''.0'', x @ ''.0.0''])"

definition first_greater_than_zero :: "string list \<Rightarrow> string" where
  \<comment> \<open>the first candidate that parses as a semver strictly greater than \<open>0.0.0\<close>,
      otherwise \<open>0.0.0\<close>\<close>
  "first_greater_than_zero cs =
     (case find (\<lambda>c. gt c ''0.0.0'' = Some True) cs of Some c \<Rightarrow> c | None \<Rightarrow> ''0.0.0'')"

definition normalizeVersion_first_dash :: "string \<Rightarrow> string" where
  \<comment> \<open>the specification's wording: the prerelease is all that follows the first \<open>-\<close>\<close>
  "normalizeVersion_first_dash version =
     first_greater_than_zero
       (candidates (fst (cut_at CHR ''-'' version)) (snd (cut_at CHR ''-'' version)))"

definition normalizeVersion_between_dashes :: "string \<Rightarrow> string" where
  \<comment> \<open>the prerelease is what stands between the first \<open>-\<close> and the second\<close>
  "normalizeVersion_between_dashes version =
     first_greater_than_zero
       (candidates (fst (cut_at CHR ''-'' version))
          (map_option (\<lambda>r. fst (cut_at CHR ''-'' r)) (snd (cut_at CHR ''-'' version))))"

definition Migrator_gt :: "string \<Rightarrow> string \<Rightarrow> bool" where
  \<comment> \<open>\<open>Migrator.gt\<close>; the library call cannot throw on normalized versions
      (lemma \<open>gt_normalizeVersion_defined\<close>)\<close>
  "Migrator_gt v1 v2 = (gt (normalizeVersion v1) (normalizeVersion v2) = Some True)"

definition Migrator_lte :: "string \<Rightarrow> string \<Rightarrow> bool" where
  "Migrator_lte v1 v2 = (lte (normalizeVersion v1) (normalizeVersion v2) = Some True)"


section \<open>The argument parser\<close>

datatype error = Error string | TypeError

definition normalizeVersionWithTagCheck :: "string \<Rightarrow> string" where
  "normalizeVersionWithTagCheck version =
     (if version = ''latest'' \<or> version = ''next'' then version else normalizeVersion version)"

fun lastIndexOf :: "char \<Rightarrow> string \<Rightarrow> int" where
  \<comment> \<open>\<open>s.lastIndexOf(c)\<close>, \<open>-1\<close> when \<open>c\<close> does not occur\<close>
  "lastIndexOf c [] = -1"
| "lastIndexOf c (x # xs) =
     (if lastIndexOf c xs \<noteq> -1 then lastIndexOf c xs + 1 else if x = c then 0 else -1)"

definition numeric_shorthand :: "string \<Rightarrow> bool" where
  \<comment> \<open>\<open>/^\d+(?:\.\d+)?(?:\.\d+)?$/\<close>\<close>
  "numeric_shorthand s =
     (let ps = split_on CHR ''.'' s
      in length ps \<le> 3 \<and> list_all (\<lambda>p. p \<noteq> [] \<and> list_all is_digit p) ps)"

definition provide_correct :: error where
  "provide_correct =
     Error ''Provide the correct package name and version. E.g., my-package@9.0.0.''"

definition parseTargetPackageAndVersion :: "string \<Rightarrow> error + (string \<times> string)" where
  \<comment> \<open>the result is the pair \<open>(targetPackage, targetVersion)\<close>\<close>
  "parseTargetPackageAndVersion args =
     (if args = [] then Inl provide_correct
      else if CHR ''@'' \<in> set args then
        (let i = lastIndexOf CHR ''@'' args
         in if i = 0 then Inr (trim args, ''latest'')
            else
              let targetPackage = take (nat i) args;
                  maybeVersion = drop (nat i + 1) args
              in if targetPackage = [] \<or> maybeVersion = [] then Inl provide_correct
                 else Inr (targetPackage, normalizeVersionWithTagCheck maybeVersion))
      else if args = ''latest'' \<or> args = ''next'' \<or> valid args \<or> numeric_shorthand args then
        (let targetVersion = normalizeVersionWithTagCheck args
         in if args \<noteq> ''latest'' \<and> args \<noteq> ''next'' then
              (case lt targetVersion ''14.0.0-beta.0'' of
                 None \<Rightarrow> Inl TypeError
               | Some b \<Rightarrow> Inr (if b then ''@nrwl/workspace'' else ''nx'', targetVersion))
            else Inr (''nx'', targetVersion))
      else Inr (args, ''latest''))"

section \<open>The planner's data\<close>

text \<open>
  A JavaScript object used as a dictionary is an association list in insertion order with
  distinct keys; assigning to a key that is present keeps its place.  (Keys that are
  array indices, which JavaScript enumerates first, are not package names.)
\<close>

fun obj_set :: "(string \<times> 'v) list \<Rightarrow> string \<Rightarrow> 'v \<Rightarrow> (string \<times> 'v) list" where
  \<comment> \<open>\<open>obj[k] = v\<close>\<close>
  "obj_set [] k v = [(k, v)]"
| "obj_set ((k', v') # kvs) k v =
     (if k' = k then (k, v) # kvs else (k', v') # obj_set kvs k v)"

definition obj_assign :: "(string \<times> 'v) list \<Rightarrow> (string \<times> 'v) list \<Rightarrow> (string \<times> 'v) list" where
  \<comment> \<open>\<open>{...m, ...c}\<close>\<close>
  "obj_assign m c = foldl (\<lambda>acc (k, v). obj_set acc k v) m c"

text \<open>
  Modelled from the spec: the interfaces \<open>PackageJsonUpdateForPackage\<close>,
  \<open>PackageJsonUpdates\<close>, \<open>MigrationsJson\<close>, \<open>PackageGroup\<close>,
  \<open>NxMigrationsConfiguration\<close> and \<open>PackageJson\<close>, which the planner imports from
  \<open>config/misc-interfaces\<close> and \<open>utils/package-json\<close> and whose declarations are
  not among the sources.  The records follow the data model of the specification and the
  fields that the code reads; an optional field is an \<open>option\<close>.
  \<open>addToPackageJson\<close> is \<open>false | 'dependencies' | 'devDependencies'\<close>, or undefined.
\<close>

datatype dependencyType = dependencies_t | devDependencies_t

datatype add_to = AddFalse | AddTo dependencyType

definition or_false :: "add_to option \<Rightarrow> add_to" where
  \<comment> \<open>\<open>x || false\<close>\<close>
  "or_false x = (case x of None \<Rightarrow> AddFalse | Some a \<Rightarrow> a)"

record PackageJsonUpdateForPackage =
  version :: string
  addToPackageJson :: "add_to option"
  alwaysAddToPackageJson :: "bool option"
  ifPackageInstalled :: "string option"

definition new_update :: "string \<Rightarrow> add_to \<Rightarrow> PackageJsonUpdateForPackage" where
  \<comment> \<open>the object literal \<open>{ version, addToPackageJson }\<close>\<close>
  "new_update v a =
     \<lparr> version = v, addToPackageJson = Some a, alwaysAddToPackageJson = None,
       ifPackageInstalled = None \<rparr>"

record PackageJsonUpdate =
  entry_version :: string
  packages :: "(string \<times> PackageJsonUpdateForPackage) list option"
  requires :: "(string \<times> string) list option"
  x_prompt :: "string option"

record MigrationGenerator =
  migration_version :: "string option"
  description :: "string option"
  implementation :: "string option"
  migration_requires :: "(string \<times> string) list option"

datatype packageConfig = PkgName string | PkgVersion string string

datatype PackageGroup =
  GroupArray "packageConfig list" | GroupObject "(string \<times> string) list"

record ResolvedMigrationConfiguration =
  config_version :: string
  packageJsonUpdates :: "(string \<times> PackageJsonUpdate) list option"
  generators :: "(string \<times> MigrationGenerator) list option"
  schematics :: "(string \<times> MigrationGenerator) list option"
  packageGroup :: "PackageGroup option"

record PackageJson =
  dependencies :: "(string \<times> string) list option"
  devDependencies :: "(string \<times> string) list option"

definition section_lookup :: "(string \<times> string) list option \<Rightarrow> string \<Rightarrow> string option" where
  \<comment> \<open>\<open>section?.[p]\<close>\<close>
  "section_lookup sec p = (case sec of None \<Rightarrow> None | Some kvs \<Rightarrow> map_of kvs p)"

text \<open>
  \<open>MigratorOptions\<close>.  \<open>fetch\<close> is the injected fetcher: \<open>Inl\<close> is a rejected promise.
  \<open>satisfies\<close> (called with \<open>includePrerelease\<close>) and \<open>cleanSemver\<close> stand for the
  range functions of the semver library, \<open>prompt\<close> for the answer of the user to the
  \<open>n\<close>-th confirmation asked.
\<close>

record MigratorOptions =
  packageJson :: PackageJson
  getInstalledPackageVersion :: "string \<Rightarrow> (string \<rightharpoonup> string) \<Rightarrow> string option"
  fetch :: "string \<Rightarrow> string \<Rightarrow> error + ResolvedMigrationConfiguration"
  "from" :: "string \<rightharpoonup> string"
  to :: "string \<rightharpoonup> string"
  interactive :: bool
  satisfies :: "string option \<Rightarrow> string \<Rightarrow> bool"
  cleanSemver :: "string \<Rightarrow> string option"
  prompt :: "nat \<Rightarrow> string \<Rightarrow> bool"

text \<open>
  The mutable fields of a \<open>Migrator\<close>, and the number of confirmations asked so far.
  \<open>plan\<close> is the field \<open>this.packageJsonUpdates\<close>, named apart from the
  \<open>packageJsonUpdates\<close> of a manifest.
\<close>

record Migrator =
  installedPkgVersionOverrides :: "string \<rightharpoonup> string"
  plan :: "(string \<times> PackageJsonUpdateForPackage) list"
  collectedVersions :: "string \<rightharpoonup> string"
  asked :: nat

definition new_Migrator :: "MigratorOptions \<Rightarrow> Migrator" where
  \<comment> \<open>the constructor; \<open>plan\<close> is the field \<open>this.packageJsonUpdates\<close>\<close>
  "new_Migrator opts =
     \<lparr> installedPkgVersionOverrides = from opts, plan = [], collectedVersions = Map.empty,
       asked = 0 \<rparr>"

definition getPkgVersion :: "MigratorOptions \<Rightarrow> Migrator \<Rightarrow> string \<Rightarrow> string option" where
  "getPkgVersion opts m pkg =
     getInstalledPackageVersion opts pkg (installedPkgVersionOverrides m)"

definition addPackageJsonUpdate ::
  "Migrator \<Rightarrow> string \<Rightarrow> PackageJsonUpdateForPackage \<Rightarrow> Migrator" where
  "addPackageJsonUpdate m name packageUpdate =
     (case map_of (plan m) name of
        None \<Rightarrow> m\<lparr>plan := obj_set (plan m) name packageUpdate\<rparr>
      | Some stored \<Rightarrow>
          if Migrator_gt (version packageUpdate) (version stored)
          then m\<lparr>plan := obj_set (plan m) name packageUpdate\<rparr>
          else m)"

definition requirement_met ::
  "MigratorOptions \<Rightarrow> Migrator \<Rightarrow> (string \<times> PackageJsonUpdateForPackage) list
     \<Rightarrow> string \<times> string \<Rightarrow> bool" where
  \<comment> \<open>the predicate given to \<open>every\<close> in \<open>areRequirementsMet\<close>\<close>
  "requirement_met opts m extraPackageUpdatesToCheck = (\<lambda>(pkgName, versionRange).
     (truthy (getPkgVersion opts m pkgName)
        \<and> satisfies opts (getPkgVersion opts m pkgName) versionRange)
     \<or> (case map_of (plan m) pkgName of
           None \<Rightarrow> False
         | Some u \<Rightarrow> version u \<noteq> [] \<and> satisfies opts (Some (version u)) versionRange)
     \<or> (case map_of extraPackageUpdatesToCheck pkgName of
           None \<Rightarrow> False
         | Some u \<Rightarrow> version u \<noteq> [] \<and> satisfies opts (cleanSemver opts (version u)) versionRange))"

definition areRequirementsMet ::
  "MigratorOptions \<Rightarrow> Migrator \<Rightarrow> (string \<times> string) list option
     \<Rightarrow> (string \<times> PackageJsonUpdateForPackage) list \<Rightarrow> bool" where
  \<comment> \<open>the last argument is \<open>[]\<close> where the source passes no \<open>extraPackageUpdatesToCheck\<close>\<close>
  "areRequirementsMet opts m requirements extraPackageUpdatesToCheck =
     (case requirements of
        None \<Rightarrow> True
      | Some reqs \<Rightarrow>
          if reqs = [] then True
          else list_all (requirement_met opts m extraPackageUpdatesToCheck) reqs)"

section \<open>The planner\<close>

subsection \<open>Package groups\<close>

definition legacy_packageGroup :: PackageGroup where
  "legacy_packageGroup = GroupObject
     [(''@nrwl/workspace'', ''*''), (''@nrwl/angular'', ''*''), (''@nrwl/cypress'', ''*''),
      (''@nrwl/devkit'', ''*''), (''@nrwl/eslint-plugin-nx'', ''*''), (''@nrwl/express'', ''*''),
      (''@nrwl/jest'', ''*''), (''@nrwl/linter'', ''*''), (''@nrwl/nest'', ''*''),
      (''@nrwl/next'', ''*''), (''@nrwl/node'', ''*''), (''@nrwl/nx-plugin'', ''*''),
      (''@nrwl/react'', ''*''), (''@nrwl/storybook'', ''*''), (''@nrwl/web'', ''*''),
      (''@nrwl/js'', ''*''), (''@nrwl/cli'', ''*''), (''@nrwl/nx-cloud'', ''latest''),
      (''@nrwl/react-native'', ''*''), (''@nrwl/detox'', ''*''), (''@nrwl/expo'', ''*'')]"

definition propagate :: "Migrator \<Rightarrow> string \<Rightarrow> string \<Rightarrow> Migrator" where
  \<comment> \<open>\<open>overrides[pkg] ??= overrides[packageName]\<close>\<close>
  "propagate m packageName pkg =
     (case installedPkgVersionOverrides m pkg of
        None \<Rightarrow> m\<lparr>installedPkgVersionOverrides :=
                 (installedPkgVersionOverrides m)(pkg := installedPkgVersionOverrides m packageName)\<rparr>
      | Some _ \<Rightarrow> m)"

fun map_state :: "('s \<Rightarrow> 'a \<Rightarrow> 'b \<times> 's) \<Rightarrow> 's \<Rightarrow> 'a list \<Rightarrow> 'b list \<times> 's" where
  \<comment> \<open>\<open>xs.map(f)\<close> for an \<open>f\<close> that changes the state\<close>
  "map_state f s [] = ([], s)"
| "map_state f s (x # xs) =
     (case f s x of (y, s') \<Rightarrow> (case map_state f s' xs of (ys, s'') \<Rightarrow> (y # ys, s'')))"

definition group_object_step ::
  "string \<Rightarrow> Migrator \<Rightarrow> string \<times> string \<Rightarrow> (string \<times> string) \<times> Migrator" where
  "group_object_step packageName m = (\<lambda>(pkg, ver).
     ((pkg, ver),
      (if truthy (installedPkgVersionOverrides m packageName) \<and> ver = ''*''
       then propagate m packageName pkg else m)))"

definition group_array_step ::
  "string \<Rightarrow> string \<Rightarrow> Migrator \<Rightarrow> packageConfig \<Rightarrow> (string \<times> string) \<times> Migrator" where
  "group_array_step packageName targetVersion m pc =
     ((case pc of PkgName n \<Rightarrow> (n, targetVersion) | PkgVersion p v \<Rightarrow> (p, v)),
      (if truthy (installedPkgVersionOverrides m packageName) then
         (case pc of
            PkgName n \<Rightarrow> propagate m packageName n
          | PkgVersion p v \<Rightarrow> (if v = ''*'' then propagate m packageName p else m))
       else m))"

definition normalizePackageGroup ::
  "Migrator \<Rightarrow> string \<Rightarrow> string \<Rightarrow> PackageGroup option
     \<Rightarrow> error + ((string \<times> string) list \<times> Migrator)" where
  "normalizePackageGroup m packageName targetVersion packageGroup0 =
     (case (if packageName = ''@nrwl/workspace'' then lt targetVersion ''14.0.0-beta.0''
            else Some False) of
        None \<Rightarrow> Inl TypeError
      | Some legacy \<Rightarrow>
          (case (if legacy then Some legacy_packageGroup else packageGroup0) of
             None \<Rightarrow> Inr ([], m)
           | Some (GroupObject kvs) \<Rightarrow> Inr (map_state (group_object_step packageName) m kvs)
           | Some (GroupArray pcs) \<Rightarrow>
               Inr (map_state (group_array_step packageName targetVersion) m pcs)))"

definition setPackageGroupAsPackageJsonUpdate ::
  "(string \<times> string) list \<Rightarrow> string \<Rightarrow> ResolvedMigrationConfiguration
     \<Rightarrow> ResolvedMigrationConfiguration" where
  "setPackageGroupAsPackageJsonUpdate normalized targetVersion migrationConfig =
     migrationConfig\<lparr>packageJsonUpdates := Some
       (obj_set (case packageJsonUpdates migrationConfig of None \<Rightarrow> [] | Some us \<Rightarrow> us)
          (targetVersion @ ''--PackageGroup'')
          \<lparr> entry_version = targetVersion,
            packages = Some (foldl (\<lambda>acc (p, v). obj_set acc p
                         \<lparr> version = v, addToPackageJson = None,
                           alwaysAddToPackageJson = Some False, ifPackageInstalled = None \<rparr>)
                       [] normalized),
            requires = None, x_prompt = None \<rparr>)\<rparr>"

subsection \<open>Filtering the update entries\<close>

text \<open>An entry that passed the filter: its \<open>packages\<close> are always defined.\<close>

record FilteredUpdate =
  filtered_version :: string
  filtered_packages :: "(string \<times> PackageJsonUpdateForPackage) list"
  filtered_requires :: "(string \<times> string) list option"
  filtered_x_prompt :: "string option"

definition keep_package ::
  "MigratorOptions \<Rightarrow> Migrator \<Rightarrow> string \<times> PackageJsonUpdateForPackage \<Rightarrow> bool" where
  "keep_package opts m = (\<lambda>(packageName, packageUpdate).
     (case ifPackageInstalled packageUpdate of
        None \<Rightarrow> True
      | Some i \<Rightarrow> i = [] \<or> truthy (getPkgVersion opts m i))
     \<and> (alwaysAddToPackageJson packageUpdate = Some True
        \<or> (case addToPackageJson packageUpdate of Some (AddTo t) \<Rightarrow> True | _ \<Rightarrow> False)
        \<or> truthy (section_lookup (dependencies (packageJson opts)) packageName)
        \<or> truthy (section_lookup (devDependencies (packageJson opts)) packageName))
     \<and> (case collectedVersions m packageName of
          None \<Rightarrow> True
        | Some c \<Rightarrow> c = [] \<or> Migrator_gt (version packageUpdate) c))"

definition canonical_update :: "PackageJsonUpdateForPackage \<Rightarrow> PackageJsonUpdateForPackage" where
  "canonical_update packageUpdate =
     new_update (version packageUpdate)
       (if alwaysAddToPackageJson packageUpdate = Some True then AddTo dependencies_t
        else or_false (addToPackageJson packageUpdate))"

definition filterPackageJsonUpdates ::
  "MigratorOptions \<Rightarrow> Migrator \<Rightarrow> (string \<times> PackageJsonUpdate) list \<Rightarrow> string \<Rightarrow> string
     \<Rightarrow> FilteredUpdate list" where
  \<comment> \<open>\<open>installed\<close> is \<open>this.getPkgVersion(packageName)\<close>, which the caller has
      found truthy\<close>
  "filterPackageJsonUpdates opts m updates installed targetVersion =
     List.map_filter (\<lambda>packageJsonUpdate.
        (case packages packageJsonUpdate of
           None \<Rightarrow> None
         | Some pkgs \<Rightarrow>
             if Migrator_lte (entry_version packageJsonUpdate) installed
                \<or> Migrator_gt (entry_version packageJsonUpdate) targetVersion
             then None
             else
               let kept = map (\<lambda>(n, u). (n, canonical_update u)) (filter (keep_package opts m) pkgs)
               in if kept \<noteq> []
                  then Some \<lparr> filtered_version = entry_version packageJsonUpdate,
                              filtered_packages = kept,
                              filtered_requires = requires packageJsonUpdate,
                              filtered_x_prompt = x_prompt packageJsonUpdate \<rparr>
                  else None))
       (map snd updates)"

definition getPackageJsonUpdatesFromMigrationConfig ::
  "MigratorOptions \<Rightarrow> Migrator \<Rightarrow> string \<Rightarrow> string \<Rightarrow> ResolvedMigrationConfiguration
     \<Rightarrow> error + ((FilteredUpdate list \<times> string list) \<times> Migrator)" where
  \<comment> \<open>the result is \<open>({packageJsonUpdates, packageGroupOrder}, this)\<close>\<close>
  "getPackageJsonUpdatesFromMigrationConfig opts m packageName targetVersion migrationConfig =
     (case normalizePackageGroup m packageName targetVersion (packageGroup migrationConfig) of
        Inl e \<Rightarrow> Inl e
      | Inr (normalized, m') \<Rightarrow>
          let packageGroupOrder = map fst normalized;
              migrationConfig' =
                (if normalized \<noteq> []
                 then setPackageGroupAsPackageJsonUpdate normalized targetVersion migrationConfig
                 else migrationConfig)
          in (case packageJsonUpdates migrationConfig' of
                None \<Rightarrow> Inr (([], packageGroupOrder), m')
              | Some us \<Rightarrow>
                  (case getPkgVersion opts m' packageName of
                     None \<Rightarrow> Inr (([], packageGroupOrder), m')
                   | Some installed \<Rightarrow>
                       if installed = [] then Inr (([], packageGroupOrder), m')
                       else Inr ((filterPackageJsonUpdates opts m' us installed targetVersion,
                                  packageGroupOrder), m'))))"

subsection \<open>The traversal\<close>

text \<open>
  An \<open>async\<close> call runs at once up to its first \<open>await\<close>.  For
  \<open>populatePackageJsonUpdatesAndGetPackagesToCheck\<close> that is \<open>populate_begin\<close>: it ends
  either with the result \<open>[]\<close> or waiting for the manifest it has asked \<open>fetch\<close> for.
  \<open>populate_resume\<close> is the rest of the call: \<open>populate_enter\<close> up to its
  \<open>Promise.all\<close>, then the nested calls and the sort.  The calls that one \<open>Promise.all\<close>
  starts are all begun in the order of the entries, and then resumed in that order, each
  running to its end before the next resumes: the schedule in which the manifests arrive
  in that order.  A rejected promise ends the operation.

  The functions that recur take the depth to which their calls may nest; \<open>None\<close> means
  that this depth did not suffice.
\<close>

type_synonym check_group = "string \<times> FilteredUpdate list"

datatype started = Finished | Awaiting "error + ResolvedMigrationConfiguration"

type_synonym 'a outcome = "(error + ('a \<times> Migrator)) option"

fun str_includes :: "string \<Rightarrow> string \<Rightarrow> bool" where
  \<comment> \<open>\<open>s.includes(sub)\<close>\<close>
  "str_includes [] sub = (sub = [])"
| "str_includes (x # xs) sub = (take (length sub) (x # xs) = sub \<or> str_includes xs sub)"

definition indexOf :: "string list \<Rightarrow> string \<Rightarrow> int" where
  "indexOf xs x = (if x \<in> set xs then int (length (takeWhile (\<lambda>y. y \<noteq> x) xs)) else -1)"

definition populate_begin ::
  "MigratorOptions \<Rightarrow> Migrator \<Rightarrow> string \<times> PackageJsonUpdateForPackage
     \<Rightarrow> (string \<times> PackageJsonUpdateForPackage \<times> started) \<times> Migrator" where
  "populate_begin opts m = (\<lambda>(targetPackage, target).
     let targetVersion = (if truthy (to opts targetPackage) then the (to opts targetPackage)
                          else version target)
     in if \<not> truthy (getPkgVersion opts m targetPackage)
        then ((targetPackage, target, Finished),
              addPackageJsonUpdate m targetPackage
                (new_update (version target) (or_false (addToPackageJson target))))
        else ((targetPackage, target, Awaiting (fetch opts targetPackage targetVersion)), m))"

definition no_matching_version :: "error \<Rightarrow> error" where
  \<comment> \<open>the \<open>catch\<close> around \<open>await this.fetch\<close>\<close>
  "no_matching_version e =
     (case e of
        Error msg \<Rightarrow>
          if str_includes msg ''No matching version''
          then Error (msg @ [CHR 0x0A]
                 @ ''Run migrate with --to='' @ [CHR 0x22]
                 @ ''package1@version1,package2@version2'' @ [CHR 0x22])
          else e
      | TypeError \<Rightarrow> e)"

definition shouldCheckUpdates :: "MigratorOptions \<Rightarrow> FilteredUpdate list \<Rightarrow> bool" where
  "shouldCheckUpdates opts updates =
     list_ex (\<lambda>packageJsonUpdate.
        (interactive opts \<and> truthy (filtered_x_prompt packageJsonUpdate))
        \<or> (case filtered_requires packageJsonUpdate of None \<Rightarrow> False | Some r \<Rightarrow> r \<noteq> []))
       updates"

fun run_all :: "(Migrator \<Rightarrow> 'a \<Rightarrow> 'r outcome) \<Rightarrow> Migrator \<Rightarrow> 'a list \<Rightarrow> 'r list outcome" where
  \<comment> \<open>the calls of one \<open>Promise.all\<close>, one after the other\<close>
  "run_all f m [] = Some (Inr ([], m))"
| "run_all f m (x # xs) =
     (case f m x of
        None \<Rightarrow> None
      | Some (Inl e) \<Rightarrow> Some (Inl e)
      | Some (Inr (r, m')) \<Rightarrow>
          (case run_all f m' xs of
             None \<Rightarrow> None
           | Some (Inl e) \<Rightarrow> Some (Inl e)
           | Some (Inr (rs, m'')) \<Rightarrow> Some (Inr (r # rs, m''))))"

definition resume_started ::
  "(Migrator \<Rightarrow> string \<times> PackageJsonUpdateForPackage \<times> (error + ResolvedMigrationConfiguration)
      \<Rightarrow> 'r outcome)
   \<Rightarrow> 'r \<Rightarrow> Migrator \<Rightarrow> string \<times> PackageJsonUpdateForPackage \<times> started \<Rightarrow> 'r outcome" where
  "resume_started rec finished m = (\<lambda>(name, update, st).
     (case st of Finished \<Rightarrow> Some (Inr (finished, m)) | Awaiting f \<Rightarrow> rec m (name, update, f)))"

datatype entered =
  Return "error + (check_group list \<times> Migrator)"
  | Descend "(string \<times> PackageJsonUpdateForPackage \<times> started) list" Migrator "string list"

definition populate_enter ::
  "MigratorOptions \<Rightarrow> Migrator
   \<Rightarrow> string \<times> PackageJsonUpdateForPackage \<times> (error + ResolvedMigrationConfiguration)
   \<Rightarrow> entered" where
  \<comment> \<open>from the manifest's arrival to the \<open>Promise.all\<close> of the nested calls, which are
      begun here: \<open>Descend begun this packageGroupOrder\<close>\<close>
  "populate_enter opts m = (\<lambda>(targetPackage, target, fetched).
     (case fetched of
        Inl e \<Rightarrow> Return (Inl (no_matching_version e))
      | Inr migrationConfig \<Rightarrow>
          let targetVersion = config_version migrationConfig
          in (case (if truthy (collectedVersions m targetPackage)
                    then gte (the (collectedVersions m targetPackage)) targetVersion
                    else Some False) of
                None \<Rightarrow> Return (Inl TypeError)
              | Some True \<Rightarrow> Return (Inr ([], m))
              | Some False \<Rightarrow>
                  (case getPackageJsonUpdatesFromMigrationConfig opts
                          (m\<lparr>collectedVersions := (collectedVersions m)(targetPackage \<mapsto> targetVersion)\<rparr>)
                          targetPackage targetVersion migrationConfig of
                     Inl e \<Rightarrow> Return (Inl e)
                   | Inr ((updates, packageGroupOrder), m2) \<Rightarrow>
                       let m3 = addPackageJsonUpdate m2 targetPackage
                                  (new_update (config_version migrationConfig)
                                     (or_false (addToPackageJson target)))
                       in if shouldCheckUpdates opts updates
                          then Return (Inr ([(targetPackage, updates)], m3))
                          else
                            let packageUpdatesToApply =
                                  foldl (\<lambda>acc c. obj_assign acc (filtered_packages c)) []
                                    updates
                            in (case map_state (populate_begin opts) m3 packageUpdatesToApply of
                                  (begun, m4) \<Rightarrow> Descend begun m4 packageGroupOrder)))))"

definition populate_resume ::
  "(Migrator \<Rightarrow> string \<times> PackageJsonUpdateForPackage \<times> (error + ResolvedMigrationConfiguration)
      \<Rightarrow> check_group list outcome)
   \<Rightarrow> MigratorOptions \<Rightarrow> Migrator
   \<Rightarrow> string \<times> PackageJsonUpdateForPackage \<times> (error + ResolvedMigrationConfiguration)
   \<Rightarrow> check_group list outcome" where
  "populate_resume rec opts m x =
     (case populate_enter opts m x of
        Return r \<Rightarrow> Some r
      | Descend begun m4 packageGroupOrder \<Rightarrow>
          (case run_all (resume_started rec []) m4 begun of
             None \<Rightarrow> None
           | Some (Inl e) \<Rightarrow> Some (Inl e)
           | Some (Inr (results, m5)) \<Rightarrow>
               Some (Inr (sort_key (\<lambda>g. indexOf packageGroupOrder (fst g))
                            (concat (filter (\<lambda>pkgs. pkgs \<noteq> []) results)),
                          m5))))"

primrec populate_rest ::
  "nat \<Rightarrow> MigratorOptions \<Rightarrow> Migrator
   \<Rightarrow> string \<times> PackageJsonUpdateForPackage \<times> (error + ResolvedMigrationConfiguration)
   \<Rightarrow> check_group list outcome" where
  "populate_rest 0 opts = (\<lambda>m x. None)"
| "populate_rest (Suc n) opts = populate_resume (populate_rest n opts) opts"

definition populatePackageJsonUpdatesAndGetPackagesToCheck ::
  "nat \<Rightarrow> MigratorOptions \<Rightarrow> Migrator \<Rightarrow> string \<Rightarrow> PackageJsonUpdateForPackage
     \<Rightarrow> check_group list outcome" where
  "populatePackageJsonUpdatesAndGetPackagesToCheck n opts m targetPackage target =
     (case populate_begin opts m (targetPackage, target) of
        (begun, m') \<Rightarrow> resume_started (populate_rest n opts) [] m' begun)"







subsection \<open>The migration list\<close>

record Migration =
  package :: string
  name :: string
  migration :: MigrationGenerator

definition migrations_of ::
  "MigratorOptions \<Rightarrow> Migrator \<Rightarrow> string \<Rightarrow> error + Migration list" where
  \<comment> \<open>the function mapped over \<open>Object.keys(this.packageJsonUpdates)\<close>\<close>
  "migrations_of opts m packageName =
     (case getPkgVersion opts m packageName of
        None \<Rightarrow> Inr []
      | Some currentVersion \<Rightarrow>
          (case map_of (plan m) packageName of
             None \<Rightarrow> Inl TypeError
           | Some u \<Rightarrow>
               (case fetch opts packageName (version u) of
                  Inl e \<Rightarrow> Inl e
                | Inr config \<Rightarrow>
                    (case generators config of
                       None \<Rightarrow> Inr []
                     | Some gs \<Rightarrow>
                         Inr (map (\<lambda>(migrationName, g).
                                    \<lparr> package = packageName, name = migrationName, migration = g \<rparr>)
                               (filter (\<lambda>(migrationName, g).
                                    (case migration_version g of
                                       None \<Rightarrow> False
                                     | Some v \<Rightarrow> v \<noteq> []
                                         \<and> Migrator_gt v currentVersion
                                         \<and> Migrator_lte v (version u)
                                         \<and> areRequirementsMet opts m (migration_requires g) []))
                                  gs))))))"

fun all_or_error :: "('a \<Rightarrow> error + 'b) \<Rightarrow> 'a list \<Rightarrow> error + 'b list" where
  \<comment> \<open>\<open>Promise.all(xs.map(f))\<close> for an \<open>f\<close> that leaves the state alone\<close>
  "all_or_error f [] = Inr []"
| "all_or_error f (x # xs) =
     (case f x of
        Inl e \<Rightarrow> Inl e
      | Inr y \<Rightarrow> (case all_or_error f xs of Inl e \<Rightarrow> Inl e | Inr ys \<Rightarrow> Inr (y # ys)))"

definition createMigrateJson :: "MigratorOptions \<Rightarrow> Migrator \<Rightarrow> error + Migration list" where
  "createMigrateJson opts m =
     (case all_or_error (migrations_of opts m) (map fst (plan m)) of
        Inl e \<Rightarrow> Inl e
      | Inr migrations \<Rightarrow> Inr (concat migrations))"


section \<open>The manifest writer\<close>

definition section_set ::
  "(string \<times> string) list option \<Rightarrow> string \<Rightarrow> string \<Rightarrow> (string \<times> string) list option" where
  \<comment> \<open>\<open>json[section] ??= {}; json[section][p] = v\<close>\<close>
  "section_set sec p v = Some (obj_set (case sec of None \<Rightarrow> [] | Some kvs \<Rightarrow> kvs) p v)"

definition update_manifest_entry ::
  "(string \<times> PackageJsonUpdateForPackage) list \<Rightarrow> PackageJson \<Rightarrow> string \<Rightarrow> PackageJson" where
  \<comment> \<open>the function given to \<open>forEach\<close> in \<open>updatePackageJson\<close>\<close>
  "update_manifest_entry updatedPackages json p =
     (case map_of updatedPackages p of
        None \<Rightarrow> json
      | Some u \<Rightarrow>
          if truthy (section_lookup (devDependencies json) p)
          then json\<lparr>devDependencies := section_set (devDependencies json) p (version u)\<rparr>
          else if truthy (section_lookup (dependencies json) p)
          then json\<lparr>dependencies := section_set (dependencies json) p (version u)\<rparr>
          else (case addToPackageJson u of
                  Some (AddTo dependencies_t) \<Rightarrow>
                    json\<lparr>dependencies := section_set (dependencies json) p (version u)\<rparr>
                | Some (AddTo devDependencies_t) \<Rightarrow>
                    json\<lparr>devDependencies := section_set (devDependencies json) p (version u)\<rparr>
                | _ \<Rightarrow> json))"

definition updatePackageJson ::
  "PackageJson \<Rightarrow> (string \<times> PackageJsonUpdateForPackage) list \<Rightarrow> PackageJson" where
  \<comment> \<open>the function \<open>updatePackageJson(root, updatedPackages)\<close>, from the manifest read
      to the manifest written\<close>
  "updatePackageJson json updatedPackages =
     foldl (update_manifest_entry updatedPackages) json (map fst updatedPackages)"

section \<open>The fetcher\<close>

record NxMigrationsConfiguration =
  migrations :: "string option"
  nx_packageGroup :: "PackageGroup option"

record PackageMigrationConfig =
  pmc_migrations :: "string option"
  pmc_packageGroup :: "PackageGroup option"
  pmc_version :: string

text \<open>
  The registry client, the tarball extractor, the package manager and the file system,
  each with the error it may throw.  A migrations file is read as a configuration whose
  \<open>version\<close> and \<open>packageGroup\<close> the fetcher then overwrites.
\<close>

record Registry =
  resolvePackageVersionUsingRegistry :: "string \<Rightarrow> string \<Rightarrow> error + string"
  getPackageMigrationsConfigFromRegistry ::
    "string \<Rightarrow> string \<Rightarrow> error + NxMigrationsConfiguration option"
  packageRegistryPack :: "string \<Rightarrow> string \<Rightarrow> error + string"
  extractFileFromTarball :: "string \<Rightarrow> string \<Rightarrow> error + ResolvedMigrationConfiguration"
  installPackage :: "string \<Rightarrow> string \<Rightarrow> error + unit"
  readPackageMigrationConfig :: "string \<Rightarrow> error + PackageMigrationConfig"
  readJsonFile :: "string \<Rightarrow> error + ResolvedMigrationConfiguration"

definition empty_configuration :: "string \<Rightarrow> ResolvedMigrationConfiguration" where
  \<comment> \<open>\<open>{ version }\<close>\<close>
  "empty_configuration v =
     \<lparr> config_version = v, packageJsonUpdates = None, generators = None, schematics = None,
       packageGroup = None \<rparr>"

definition migrations_file_missing :: "string \<Rightarrow> string \<Rightarrow> string \<Rightarrow> error" where
  "migrations_file_missing migrationsFilePath packageName packageVersion =
     Error (''Failed to find migrations file '' @ [CHR 0x22] @ migrationsFilePath @ [CHR 0x22]
            @ '' in package '' @ [CHR 0x22] @ packageName @ ''@'' @ packageVersion
            @ [CHR 0x22] @ ''.'')"

definition downloadPackageMigrationsFromRegistry ::
  "Registry \<Rightarrow> string \<Rightarrow> string \<Rightarrow> string \<Rightarrow> PackageGroup option
     \<Rightarrow> error + ResolvedMigrationConfiguration" where
  "downloadPackageMigrationsFromRegistry reg packageName packageVersion migrationsFilePath pg =
     (case packageRegistryPack reg packageName packageVersion of
        Inl e \<Rightarrow> Inl (migrations_file_missing migrationsFilePath packageName packageVersion)
      | Inr tarballPath \<Rightarrow>
          (case extractFileFromTarball reg tarballPath migrationsFilePath of
             Inl e \<Rightarrow> Inl (migrations_file_missing migrationsFilePath packageName packageVersion)
           | Inr file \<Rightarrow> Inr (file\<lparr>packageGroup := pg, config_version := packageVersion\<rparr>)))"

definition getPackageMigrationsUsingRegistry ::
  "Registry \<Rightarrow> string \<Rightarrow> string \<Rightarrow> error + ResolvedMigrationConfiguration" where
  "getPackageMigrationsUsingRegistry reg packageName packageVersion =
     (case getPackageMigrationsConfigFromRegistry reg packageName packageVersion of
        Inl e \<Rightarrow> Inl e
      | Inr None \<Rightarrow> Inr (empty_configuration packageVersion)
      | Inr (Some migrationsConfig) \<Rightarrow>
          if \<not> truthy (migrations migrationsConfig)
          then Inr ((empty_configuration packageVersion)
                      \<lparr>packageGroup := nx_packageGroup migrationsConfig\<rparr>)
          else downloadPackageMigrationsFromRegistry reg packageName packageVersion
                 (the (migrations migrationsConfig)) (nx_packageGroup migrationsConfig))"

definition getPackageMigrationsUsingInstall ::
  "Registry \<Rightarrow> string \<Rightarrow> string \<Rightarrow> error + ResolvedMigrationConfiguration" where
  "getPackageMigrationsUsingInstall reg packageName packageVersion =
     (case installPackage reg packageName packageVersion of
        Inl e \<Rightarrow> Inl e
      | Inr _ \<Rightarrow>
          (case readPackageMigrationConfig reg packageName of
             Inl e \<Rightarrow> Inl e
           | Inr c \<Rightarrow>
               if truthy (pmc_migrations c) then
                 (case readJsonFile reg (the (pmc_migrations c)) of
                    Inl e \<Rightarrow> Inl e
                  | Inr file \<Rightarrow>
                      Inr (file\<lparr>packageGroup := pmc_packageGroup c, config_version := pmc_version c\<rparr>))
               else Inr ((empty_configuration (pmc_version c))
                           \<lparr>packageGroup := pmc_packageGroup c\<rparr>)))"

text \<open>
  The two caches of \<open>createFetcher\<close>.  A cached promise is the result it settles with.
\<close>

record Fetcher =
  migrationsCache :: "string \<rightharpoonup> error + ResolvedMigrationConfiguration"
  resolvedVersionCache :: "string \<rightharpoonup> error + string"

definition cacheKey :: "string \<Rightarrow> string \<Rightarrow> string" where
  "cacheKey packageName packageVersion = packageName @ ''-'' @ packageVersion"

definition fetchMigrations ::
  "Registry \<Rightarrow> Fetcher \<Rightarrow> string \<Rightarrow> string
     \<Rightarrow> (error + ResolvedMigrationConfiguration) \<times> string option \<times> Fetcher" where
  \<comment> \<open>the result, the version \<open>setCache\<close> was called with, if it was, and the caches\<close>
  "fetchMigrations reg f packageName packageVersion =
     (let key = cacheKey packageName packageVersion;
          cached = (case resolvedVersionCache f key of
                      Some (Inr v) \<Rightarrow> (if v \<noteq> [] then Some (Inr v) else None)
                    | Some (Inl e) \<Rightarrow> Some (Inl e)
                    | None \<Rightarrow> None);
          resolving = (case cached of
                         Some r \<Rightarrow> r
                       | None \<Rightarrow> resolvePackageVersionUsingRegistry reg packageName packageVersion);
          f' = (case cached of
                  Some r \<Rightarrow> f
                | None \<Rightarrow> f\<lparr>resolvedVersionCache := (resolvedVersionCache f)(key \<mapsto> resolving)\<rparr>)
      in (case resolving of
            Inl e \<Rightarrow> (getPackageMigrationsUsingInstall reg packageName packageVersion, None, f')
          | Inr resolvedVersion \<Rightarrow>
              (case (if resolvedVersion \<noteq> packageVersion
                     then migrationsCache f' (cacheKey packageName resolvedVersion) else None) of
                 Some (Inr c) \<Rightarrow> (Inr c, None, f')
               | Some (Inl e) \<Rightarrow>
                   (getPackageMigrationsUsingInstall reg packageName packageVersion, None, f')
               | None \<Rightarrow>
                   (case getPackageMigrationsUsingRegistry reg packageName resolvedVersion of
                      Inr c \<Rightarrow> (Inr c, Some resolvedVersion, f')
                    | Inl e \<Rightarrow>
                        (getPackageMigrationsUsingInstall reg packageName packageVersion,
                         Some resolvedVersion, f')))))"

definition rename_schematics :: "ResolvedMigrationConfiguration \<Rightarrow> ResolvedMigrationConfiguration" where
  "rename_schematics result =
     (case schematics result of
        None \<Rightarrow> result
      | Some s \<Rightarrow> result\<lparr>generators := Some s, schematics := None\<rparr>)"

definition nxMigrateFetcher ::
  "Registry \<Rightarrow> Fetcher \<Rightarrow> string \<Rightarrow> string
     \<Rightarrow> (error + ResolvedMigrationConfiguration) \<times> Fetcher" where
  "nxMigrateFetcher reg f packageName packageVersion =
     (case migrationsCache f (cacheKey packageName packageVersion) of
        Some r \<Rightarrow> (r, f)
      | None \<Rightarrow>
          (case fetchMigrations reg f packageName packageVersion of
             (r, resolved, f') \<Rightarrow>
               let result = map_sum id rename_schematics r;
                   cache1 = (migrationsCache f')(cacheKey packageName packageVersion \<mapsto> result);
                   cache2 = (case resolved of
                               None \<Rightarrow> cache1
                             | Some v \<Rightarrow> cache1(cacheKey packageName v \<mapsto> result))
               in (result, f'\<lparr>migrationsCache := cache2\<rparr>)))"

section \<open>The manifest graph\<close>






section \<open>Sequences of calls and example inputs\<close>

definition addPackageJsonUpdates ::
  "Migrator \<Rightarrow> (string \<times> PackageJsonUpdateForPackage) list \<Rightarrow> Migrator" where
  \<comment> \<open>the calls \<open>addPackageJsonUpdate(n, u)\<close> of a list, in order\<close>
  "addPackageJsonUpdates m calls = foldl (\<lambda>m (n, u). addPackageJsonUpdate m n u) m calls"


definition m_fresh :: Migrator where
  "m_fresh =
     \<lparr> installedPkgVersionOverrides = Map.empty, plan = [], collectedVersions = Map.empty,
       asked = 0 \<rparr>"

definition calls_example :: "(string \<times> PackageJsonUpdateForPackage) list" where
  "calls_example =
     [(''p'', new_update ''1.2'' AddFalse), (''q'', new_update ''9.0.0'' AddFalse),
      (''p'', new_update ''1.10.0-beta.1'' (AddTo dependencies_t)),
      (''p'', new_update ''1.9.5'' AddFalse)]"

definition m_stored :: Migrator where
  "m_stored = m_fresh\<lparr>plan := [(''p'', new_update ''1.0.0'' AddFalse)]\<rparr>"

section \<open>The entries of the manifest written, and example manifests\<close>

definition entry_after ::
  "PackageJsonUpdateForPackage option \<Rightarrow> string option \<Rightarrow> string option \<Rightarrow> dependencyType \<Rightarrow> string option" where
  \<comment> \<open>the entry of a package in a section of the manifest written, from its planned
      update and its entries in \<open>devDependencies\<close> and \<open>dependencies\<close> before\<close>
  "entry_after planned dev dep sec =
     (case planned of
        None \<Rightarrow> (case sec of devDependencies_t \<Rightarrow> dev | dependencies_t \<Rightarrow> dep)
      | Some u \<Rightarrow>
          (case sec of
             devDependencies_t \<Rightarrow>
               if truthy dev then Some (version u)
               else if truthy dep then dev
               else if addToPackageJson u = Some (AddTo devDependencies_t) then Some (version u)
               else dev
           | dependencies_t \<Rightarrow>
               if truthy dev then dep
               else if truthy dep then Some (version u)
               else if addToPackageJson u = Some (AddTo dependencies_t) then Some (version u)
               else dep))"

definition section_of :: "PackageJson \<Rightarrow> dependencyType \<Rightarrow> (string \<times> string) list option" where
  "section_of json sec = (case sec of devDependencies_t \<Rightarrow> devDependencies json | dependencies_t \<Rightarrow> dependencies json)"


definition manifest_both :: PackageJson where
  "manifest_both =
     \<lparr> dependencies = Some [(''p'', ''1.0.0''), (''r'', ''0.1.0'')],
       devDependencies = Some [(''p'', ''1.0.1'')] \<rparr>"

definition manifest_both_empty :: PackageJson where
  "manifest_both_empty =
     \<lparr> dependencies = Some [(''p'', ''1.0.0'')], devDependencies = Some [(''p'', [])] \<rparr>"

definition plan_p :: "(string \<times> PackageJsonUpdateForPackage) list" where
  "plan_p = [(''p'', new_update ''2.0.0'' AddFalse)]"


section \<open>An example registry\<close>

definition registry_missing_file :: Registry where
  \<comment> \<open>a registry whose package declares \<open>./migrations.json\<close>, absent from its tarball\<close>
  "registry_missing_file =
     \<lparr> resolvePackageVersionUsingRegistry = (\<lambda>p v. Inr v),
       getPackageMigrationsConfigFromRegistry =
         (\<lambda>p v. Inr (Some \<lparr> migrations = Some ''./migrations.json'', nx_packageGroup = None \<rparr>)),
       packageRegistryPack = (\<lambda>p v. Inr ''pkg.tgz''),
       extractFileFromTarball = (\<lambda>t f. Inl (Error ''ENOENT'')),
       installPackage = (\<lambda>p v. Inr ()),
       readPackageMigrationConfig =
         (\<lambda>p. Inr \<lparr> pmc_migrations = None, pmc_packageGroup = None, pmc_version = ''2.0.0'' \<rparr>),
       readJsonFile = (\<lambda>f. Inl (Error ''ENOENT'')) \<rparr>"

definition new_Fetcher :: Fetcher where
  "new_Fetcher = \<lparr> migrationsCache = Map.empty, resolvedVersionCache = Map.empty \<rparr>"

section \<open>Example planners\<close>

definition opts_pinned :: MigratorOptions where
  \<comment> \<open>\<open>p\<close> is installed at \<open>1.0.0\<close>, \<open>q\<close> is not installed and pinned by
      \<open>--to="q@3.0.0"\<close>; nothing can be fetched\<close>
  "opts_pinned =
     \<lparr> packageJson = \<lparr> dependencies = Some [(''p'', ''1.0.0'')], devDependencies = None \<rparr>,
       getInstalledPackageVersion =
         (\<lambda>pkg overrides.
            if truthy (overrides pkg) then overrides pkg
            else if pkg = ''p'' then Some ''1.0.0'' else None),
       fetch = (\<lambda>pkg v. Inl (Error ''offline'')),
       from = Map.empty,
       to = [''q'' \<mapsto> ''3.0.0''],
       interactive = False,
       satisfies = (\<lambda>v r. False),
       cleanSemver = Some,
       prompt = (\<lambda>n msg. True) \<rparr>"

definition plain_generator :: "string \<Rightarrow> (string \<times> string) list option \<Rightarrow> MigrationGenerator" where
  "plain_generator v r =
     \<lparr> migration_version = Some v, description = None, implementation = None,
       migration_requires = r \<rparr>"

definition config_a :: ResolvedMigrationConfiguration where
  "config_a =
     \<lparr> config_version = ''2.0.0'',
       packageJsonUpdates = Some
         [(''2.0.0'',
           \<lparr> entry_version = ''2.0.0'',
             packages = Some [(''c'', \<lparr> version = ''3.0.0'',
                                      addToPackageJson = Some (AddTo dependencies_t),
                                      alwaysAddToPackageJson = None,
                                      ifPackageInstalled = None \<rparr>)],
             requires = None, x_prompt = None \<rparr>)],
       generators = Some
         [(''update-a'', plain_generator ''1.5.0'' None),
          (''old'', plain_generator ''0.9.0'' None),
          (''future'', plain_generator ''2.1.0'' None),
          (''needs-b'', plain_generator ''2.0.0'' (Some [(''b'', ''2.0.0'')])),
          (''needs-d'', plain_generator ''2.0.0'' (Some [(''d'', ''1.0.0'')]))],
       schematics = None,
       packageGroup = Some (GroupArray [PkgName ''b'']) \<rparr>"

definition config_b :: ResolvedMigrationConfiguration where
  "config_b =
     \<lparr> config_version = ''2.0.0'',
       packageJsonUpdates = None,
       generators = Some [(''update-b'', plain_generator ''2.0.0'' None)],
       schematics = None,
       packageGroup = Some (GroupArray [PkgVersion ''a'' ''2.0.1'']) \<rparr>"

definition opts_group :: MigratorOptions where
  \<comment> \<open>\<open>a\<close> and \<open>b\<close> are installed at \<open>1.0.0\<close> and name each other in their package
      groups; \<open>c\<close> is not installed\<close>
  "opts_group =
     \<lparr> packageJson = \<lparr> dependencies = Some [(''a'', ''1.0.0''), (''b'', ''1.0.0'')],
                       devDependencies = None \<rparr>,
       getInstalledPackageVersion =
         (\<lambda>pkg overrides.
            if truthy (overrides pkg) then overrides pkg
            else if pkg = ''a'' \<or> pkg = ''b'' then Some ''1.0.0'' else None),
       fetch = (\<lambda>pkg v. if pkg = ''a'' then Inr config_a
                        else if pkg = ''b'' then Inr config_b
                        else Inl (Error ''No matching version found'')),
       from = Map.empty,
       to = Map.empty,
       interactive = False,
       satisfies = (\<lambda>v r. v = Some r),
       cleanSemver = Some,
       prompt = (\<lambda>n msg. True) \<rparr>"

definition m_planned :: Migrator where
  \<comment> \<open>the planner after \<open>buildPackageJsonUpdates\<close> for \<open>a@2.0.0\<close> under \<open>opts_group\<close>\<close>
  "m_planned =
     \<lparr> installedPkgVersionOverrides = Map.empty,
       plan = [(''a'', new_update ''2.0.0'' AddFalse),
               (''c'', new_update ''3.0.0'' (AddTo dependencies_t)),
               (''b'', new_update ''2.0.0'' AddFalse)],
       collectedVersions = [''a'' \<mapsto> ''2.0.0'', ''b'' \<mapsto> ''2.0.0''],
       asked = 0 \<rparr>"

definition needs_b :: Migration where
  "needs_b =
     \<lparr> package = ''a'', name = ''needs-b'',
       migration = plain_generator ''2.0.0'' (Some [(''b'', ''2.0.0'')]) \<rparr>"


section \<open>Properties of the version order\<close>













lemma parse_zero: "parse_semver ''0.0.0'' = Some \<lparr> major = 0, minor = 0, patch = 0, prerelease = [], build = [] \<rparr>"
  by code_simp

lemma first_gt0_valid: "parse_semver (first_gt0 xs) \<noteq> None"
  by (induction xs) (auto simp: parse_zero gt_def compare_def split: option.splits)

lemma normalizeVersion_valid: "parse_semver (normalizeVersion v) \<noteq> None"
  by (simp add: normalizeVersion_def first_gt0_valid)

lemma gt_normalizeVersion_defined: "gt (normalizeVersion a) (normalizeVersion b) \<noteq> None"
proof -
  obtain x y where "parse_semver (normalizeVersion a) = Some x" "parse_semver (normalizeVersion b) = Some y"
    using normalizeVersion_valid[of a] normalizeVersion_valid[of b] by blast
  then show ?thesis by (simp add: gt_def compare_def)
qed

lemma lte_normalizeVersion_defined: "lte (normalizeVersion a) (normalizeVersion b) \<noteq> None"
proof -
  obtain x y where "parse_semver (normalizeVersion a) = Some x" "parse_semver (normalizeVersion b) = Some y"
    using normalizeVersion_valid[of a] normalizeVersion_valid[of b] by blast
  then show ?thesis by (simp add: lte_def compare_def)
qed



section \<open>The plan keeps the highest proposed version\<close>

lemma map_of_obj_set: "map_of (obj_set kvs k v) k' = (if k' = k then Some v else map_of kvs k')"
  by (induction kvs) auto






lemma calls_example_plan:
  "plan (addPackageJsonUpdates m_fresh calls_example) =
     [(''p'', new_update ''1.10.0-beta.1'' (AddTo dependencies_t)), (''q'', new_update ''9.0.0'' AddFalse)]"
  by code_simp


text \<open>
  Claim C10.  When the plan holds an update for \<open>p\<close> and a new update for \<open>p\<close> has a
  version that compares equal to the stored one after normalization, the planner is left as
  it was, the stored \<open>addToPackageJson\<close> included; and a call that does change the
  planner has a strictly greater normalized version.
\<close>

theorem addPackageJsonUpdate_tie_keeps_stored:
  assumes "map_of (plan m) p = Some stored"
    and "compare (normalizeVersion (version u)) (normalizeVersion (version stored)) = Some 0"
  shows "addPackageJsonUpdate m p u = m
         \<and> (\<forall>u'. addPackageJsonUpdate m p u' \<noteq> m \<longrightarrow>
                gt (normalizeVersion (version u')) (normalizeVersion (version stored)) = Some True)"
  using assms by (auto simp: addPackageJsonUpdate_def Migrator_gt_def gt_def)

theorem addPackageJsonUpdate_tie_keeps_stored_witness:
  "map_of (plan m_stored) ''p'' = Some (new_update ''1.0.0'' AddFalse)
   \<and> compare (normalizeVersion ''1.0'') (normalizeVersion ''1.0.0'') = Some 0
   \<and> addPackageJsonUpdate m_stored ''p'' (new_update ''1.0'' (AddTo dependencies_t)) = m_stored
   \<and> addPackageJsonUpdate m_stored ''p'' (new_update ''1.0.1'' (AddTo dependencies_t)) \<noteq> m_stored"
proof -
  have s: "map_of (plan m_stored) ''p'' = Some (new_update ''1.0.0'' AddFalse)"
    by (simp add: m_stored_def)
  have c: "compare (normalizeVersion (version (new_update ''1.0'' (AddTo dependencies_t))))
             (normalizeVersion (version (new_update ''1.0.0'' AddFalse))) = Some 0"
    by code_simp
  have c': "compare (normalizeVersion ''1.0'') (normalizeVersion ''1.0.0'') = Some 0"
    by code_simp
  have g: "plan (addPackageJsonUpdate m_stored ''p'' (new_update ''1.0.1'' (AddTo dependencies_t)))
             \<noteq> plan m_stored"
    by code_simp
  from addPackageJsonUpdate_tie_keeps_stored[OF s c] s c' g show ?thesis
    by auto
qed

section \<open>normalizeVersion returns the first candidate above 0.0.0\<close>

lemma split_on_not_Nil: "split_on c s \<noteq> []"
  by (induction s) (auto split: list.splits)

lemma hd_split_on: "hd (split_on c s) = takeWhile (\<lambda>x. x \<noteq> c) s"
  by (induction s) (auto split: list.splits simp: split_on_not_Nil)

lemma tl_split_on:
  "tl (split_on c s) = (case dropWhile (\<lambda>x. x \<noteq> c) s of [] \<Rightarrow> [] | _ # r \<Rightarrow> split_on c r)"
proof (induction s)
  case Nil
  then show ?case by simp
next
  case (Cons a s)
  show ?case
  proof (cases "a = c")
    case True
    then show ?thesis by simp
  next
    case False
    obtain w ws where ws: "split_on c s = w # ws"
      using split_on_not_Nil[of c s] by (cases "split_on c s") auto
    have "tl (split_on c (a # s)) = tl (split_on c s)"
      using False ws by simp
    also have "\<dots> = (case dropWhile (\<lambda>x. x \<noteq> c) (a # s) of [] \<Rightarrow> [] | _ # r \<Rightarrow> split_on c r)"
      unfolding Cons.IH using False by simp
    finally show ?thesis .
  qed
qed

lemma split_on_0: "split_on c s ! 0 = fst (cut_at c s)"
  using hd_split_on[of c s] split_on_not_Nil[of c s]
  by (cases "split_on c s") (auto simp: cut_at_def)

lemma split_on_1:
  "nth_opt (split_on c s) 1 = map_option (\<lambda>r. fst (cut_at c r)) (snd (cut_at c s))"
proof (cases "dropWhile (\<lambda>x. x \<noteq> c) s")
  case Nil
  have "tl (split_on c s) = []" unfolding tl_split_on Nil by simp
  then have "length (split_on c s) = 1"
    using split_on_not_Nil[of c s] by (cases "split_on c s") auto
  moreover have "snd (cut_at c s) = None" unfolding cut_at_def Nil by simp
  ultimately show ?thesis by (simp add: nth_opt_def)
next
  case (Cons a r)
  have t: "tl (split_on c s) = split_on c r" unfolding tl_split_on Cons by simp
  obtain w ws where ws: "split_on c s = w # ws"
    using split_on_not_Nil[of c s] by (cases "split_on c s") auto
  with t have "ws = split_on c r" by simp
  then have "ws \<noteq> []" "hd ws = fst (cut_at c r)"
    by (simp_all add: split_on_not_Nil hd_split_on cut_at_def)
  moreover have "snd (cut_at c s) = Some r" unfolding cut_at_def Cons by simp
  ultimately show ?thesis using ws by (cases ws) (simp_all add: nth_opt_def)
qed

lemma first_gt0_find: "first_gt0 cs = first_greater_than_zero cs"
  by (induction cs) (auto simp: first_greater_than_zero_def)

lemma variationsToCheck_candidates:
  "variationsToCheck v =
     candidates (fst (cut_at CHR ''-'' v))
       (map_option (\<lambda>r. fst (cut_at CHR ''-'' r)) (snd (cut_at CHR ''-'' v)))"
  unfolding variationsToCheck_def candidates_def split_on_0 split_on_1 Let_def
  by simp

text \<open>
  Claim C7, as amended.  For every string \<open>v\<close>, \<open>normalizeVersion v\<close> takes as semver
  part the text before the first \<open>-\<close> and as prerelease part the text between the first
  \<open>-\<close> and the second (not all that follows the first), splits the semver part on
  \<open>.\<close> into major, minor and patch with \<open>0\<close> for a missing part, and returns the
  first of the candidates full, semver only, \<open>x.y.0\<close>, \<open>x.0.0\<close> that parses as a
  semver strictly greater than \<open>0.0.0\<close>, or \<open>0.0.0\<close> when none does.  It never
  throws, and its result is always a valid semver.
\<close>

theorem normalizeVersion_prerelease_between_dashes:
  "normalizeVersion v = normalizeVersion_between_dashes v \<and> valid (normalizeVersion v)"
proof
  show "normalizeVersion v = normalizeVersion_between_dashes v"
    by (simp add: normalizeVersion_def normalizeVersion_between_dashes_def first_gt0_find
        variationsToCheck_candidates)
  show "valid (normalizeVersion v)"
    unfolding valid_def by (rule normalizeVersion_valid)
qed

theorem normalizeVersion_prerelease_between_dashes_witness:
  "normalizeVersion ''1-invalid-version'' = normalizeVersion_between_dashes ''1-invalid-version''
   \<and> normalizeVersion_between_dashes ''1-invalid-version'' = ''1.0.0-invalid''
   \<and> normalizeVersion ''invalid-version'' = ''0.0.0''
   \<and> normalizeVersion ''1.invalid-version'' = ''1.0.0''
   \<and> valid (normalizeVersion ''1-invalid-version'')"
proof -
  have "normalizeVersion_between_dashes ''1-invalid-version'' = ''1.0.0-invalid''"
    "normalizeVersion ''invalid-version'' = ''0.0.0''"
    "normalizeVersion ''1.invalid-version'' = ''1.0.0''"
    "valid ''1.0.0-invalid''"
    by code_simp+
  with normalizeVersion_prerelease_between_dashes[of "''1-invalid-version''"] show ?thesis
    by simp
qed

text \<open>
  The claim as the specification states it, splitting on the first \<open>-\<close> only, fails on
  a version with two dashes: the code keeps \<open>beta\<close> of \<open>1.0.0-beta-1\<close>, the
  specification's reading keeps \<open>beta-1\<close>, which is a valid prerelease.
\<close>

theorem normalizeVersion_first_dash_counterexample:
  "normalizeVersion ''1.0.0-beta-1'' = ''1.0.0-beta''
   \<and> normalizeVersion_first_dash ''1.0.0-beta-1'' = ''1.0.0-beta-1''"
  by code_simp

section \<open>A bare version chooses its package\<close>

lemma parse_beta: "parse_semver ''14.0.0-beta.0'' = Some \<lparr> major = 14, minor = 0, patch = 0, prerelease = [Alnum ''beta'', Num 0], build = [] \<rparr>"
  by code_simp

lemma lt_normalizeVersion_beta:
  "\<exists>b. lt (normalizeVersion v) ''14.0.0-beta.0'' = Some b
       \<and> b = (gte (normalizeVersion v) ''14.0.0-beta.0'' \<noteq> Some True)"
proof -
  obtain x where "parse_semver (normalizeVersion v) = Some x"
    using normalizeVersion_valid[of v] by blast
  then show ?thesis
    by (auto simp: lt_def gte_def compare_def parse_beta)
qed

lemma not_valid_Nil: "\<not> valid []"
  by code_simp

lemma not_numeric_shorthand_Nil: "\<not> numeric_shorthand []"
  by code_simp

text \<open>
  Claim C8.  An argument without \<open>@\<close> that is \<open>latest\<close>, \<open>next\<close>, a valid semver
  or a numeric shorthand is parsed as a bare version: the target version is the argument
  for a tag and its normalized version otherwise, and the target package is \<open>nx\<close> for a
  tag or a normalized version at least \<open>14.0.0-beta.0\<close>, and \<open>@nrwl/workspace\<close>
  otherwise.  The witness has the three examples of the specification.
\<close>

theorem parseTargetPackageAndVersion_bare_version:
  assumes "CHR ''@'' \<notin> set args"
    and "args = ''latest'' \<or> args = ''next'' \<or> valid args \<or> numeric_shorthand args"
  shows "parseTargetPackageAndVersion args =
           Inr (if args = ''latest'' \<or> args = ''next''
                     \<or> gte (normalizeVersion args) ''14.0.0-beta.0'' = Some True
                then ''nx'' else ''@nrwl/workspace'',
                if args = ''latest'' \<or> args = ''next'' then args else normalizeVersion args)"
proof -
  have ne: "args \<noteq> []"
    using assms(2) not_valid_Nil not_numeric_shorthand_Nil by auto
  obtain b where b: "lt (normalizeVersion args) ''14.0.0-beta.0'' = Some b"
    "b = (gte (normalizeVersion args) ''14.0.0-beta.0'' \<noteq> Some True)"
    using lt_normalizeVersion_beta[of args] by blast
  show ?thesis
    using assms ne b
    by (auto simp: parseTargetPackageAndVersion_def normalizeVersionWithTagCheck_def Let_def)
qed

theorem parseTargetPackageAndVersion_bare_version_witness:
  "CHR ''@'' \<notin> set ''13.9.0'' \<and> valid ''13.9.0'' \<and> numeric_shorthand ''13.9.0''
   \<and> parseTargetPackageAndVersion ''13.9.0'' = Inr (''@nrwl/workspace'', ''13.9.0'')
   \<and> parseTargetPackageAndVersion ''16.0.0'' = Inr (''nx'', ''16.0.0'')
   \<and> parseTargetPackageAndVersion ''latest'' = Inr (''nx'', ''latest'')"
proof -
  have h1: "CHR ''@'' \<notin> set ''13.9.0''" by simp
  have v: "valid ''13.9.0''" "numeric_shorthand ''13.9.0''" by code_simp+
  then have h2: "''13.9.0'' = ''latest'' \<or> ''13.9.0'' = ''next'' \<or> valid ''13.9.0'' \<or> numeric_shorthand ''13.9.0''"
    by simp
  have n: "normalizeVersion ''13.9.0'' = ''13.9.0''" "gte ''13.9.0'' ''14.0.0-beta.0'' = Some False"
    by code_simp+
  have r: "parseTargetPackageAndVersion ''16.0.0'' = Inr (''nx'', ''16.0.0'')"
    "parseTargetPackageAndVersion ''latest'' = Inr (''nx'', ''latest'')"
    by code_simp+
  from parseTargetPackageAndVersion_bare_version[OF h1 h2] n h1 v r show ?thesis
    by simp
qed

section \<open>The manifest writer\<close>

lemma section_lookup_set:
  "section_lookup (section_set sec p v) q = (if q = p then Some v else section_lookup sec q)"
  by (simp add: section_lookup_def section_set_def map_of_obj_set split: option.splits)

lemma update_manifest_entry_lookup:
  "section_lookup (section_of (update_manifest_entry ups json p) sec) q =
     (if q = p
      then entry_after (map_of ups p) (section_lookup (devDependencies json) p)
             (section_lookup (dependencies json) p) sec
      else section_lookup (section_of json sec) q)"
  by (cases sec)
     (auto simp: update_manifest_entry_def section_of_def entry_after_def section_lookup_set
           split: option.splits add_to.splits dependencyType.splits)

lemma foldl_update_manifest_entry_lookup:
  "distinct ps \<Longrightarrow>
   section_lookup (section_of (foldl (update_manifest_entry ups) json ps) sec) q =
     (if q \<in> set ps
      then entry_after (map_of ups q) (section_lookup (devDependencies json) q)
             (section_lookup (dependencies json) q) sec
      else section_lookup (section_of json sec) q)"
proof (induction ps arbitrary: json)
  case Nil
  then show ?case by simp
next
  case (Cons p ps)
  let ?j = "update_manifest_entry ups json p"
  have dev: "section_lookup (devDependencies ?j) q = section_lookup (section_of ?j devDependencies_t) q"
    and dep: "section_lookup (dependencies ?j) q = section_lookup (section_of ?j dependencies_t) q"
    by (simp_all add: section_of_def)
  from Cons.prems have d: "distinct ps" and np: "p \<notin> set ps" by simp_all
  show ?case
  proof (cases "q \<in> set ps")
    case True
    then have "q \<noteq> p" using np by auto
    then show ?thesis
      using True Cons.IH[OF d, of ?j] 
      by (simp add: dev dep update_manifest_entry_lookup) (simp add: section_of_def)
  next
    case False
    then show ?thesis
      using Cons.IH[OF d, of ?j] by (simp add: update_manifest_entry_lookup)
  qed
qed

lemma updatePackageJson_lookup:
  assumes "distinct (map fst updatedPackages)"
  shows "section_lookup (section_of (updatePackageJson json updatedPackages) sec) p =
           entry_after (map_of updatedPackages p) (section_lookup (devDependencies json) p)
             (section_lookup (dependencies json) p) sec"
proof -
  have "p \<notin> set (map fst updatedPackages) \<Longrightarrow> map_of updatedPackages p = None"
    by (simp add: map_of_eq_None_iff)
  then show ?thesis
    unfolding updatePackageJson_def foldl_update_manifest_entry_lookup[OF assms]
    by (cases sec) (auto simp: entry_after_def section_of_def)
qed




text \<open>
  Claim C9, as amended.  When a planned package has a non-empty version string in
  \<open>devDependencies\<close> and an entry in \<open>dependencies\<close>, the writer rewrites the
  \<open>devDependencies\<close> entry to the planned version and leaves the \<open>dependencies\<close>
  entry as it was.
\<close>

theorem updatePackageJson_devDependencies_first:
  assumes "distinct (map fst updatedPackages)"
    and "map_of updatedPackages p = Some u"
    and "truthy (section_lookup (devDependencies json) p)"
    and "section_lookup (dependencies json) p = Some d"
  shows "section_lookup (devDependencies (updatePackageJson json updatedPackages)) p = Some (version u)
         \<and> section_lookup (dependencies (updatePackageJson json updatedPackages)) p = Some d"
  using updatePackageJson_lookup[OF assms(1), of json devDependencies_t p]
    updatePackageJson_lookup[OF assms(1), of json dependencies_t p] assms(2-)
  by (simp add: section_of_def entry_after_def)

theorem updatePackageJson_devDependencies_first_witness:
  "distinct (map fst plan_p) \<and> map_of plan_p ''p'' = Some (new_update ''2.0.0'' AddFalse)
   \<and> truthy (section_lookup (devDependencies manifest_both) ''p'')
   \<and> section_lookup (dependencies manifest_both) ''p'' = Some ''1.0.0''
   \<and> section_lookup (devDependencies (updatePackageJson manifest_both plan_p)) ''p'' = Some ''2.0.0''
   \<and> section_lookup (dependencies (updatePackageJson manifest_both plan_p)) ''p'' = Some ''1.0.0''"
proof -
  have h: "distinct (map fst plan_p)" "map_of plan_p ''p'' = Some (new_update ''2.0.0'' AddFalse)"
    "truthy (section_lookup (devDependencies manifest_both) ''p'')"
    "section_lookup (dependencies manifest_both) ''p'' = Some ''1.0.0''"
    by (simp_all add: plan_p_def manifest_both_def section_lookup_def truthy_def)
  from updatePackageJson_devDependencies_first[OF h] h show ?thesis
    by (simp add: new_update_def)
qed

text \<open>
  As stated, for any package that appears in both sections, the claim fails when the
  \<open>devDependencies\<close> entry is the empty string: then the \<open>dependencies\<close> entry is
  the one rewritten.
\<close>

theorem updatePackageJson_devDependencies_first_counterexample:
  "section_lookup (devDependencies manifest_both_empty) ''p'' = Some []
   \<and> section_lookup (dependencies manifest_both_empty) ''p'' = Some ''1.0.0''
   \<and> map_of plan_p ''p'' = Some (new_update ''2.0.0'' AddFalse)
   \<and> section_lookup (devDependencies (updatePackageJson manifest_both_empty plan_p)) ''p'' = Some []
   \<and> section_lookup (dependencies (updatePackageJson manifest_both_empty plan_p)) ''p'' = Some ''2.0.0''"
  by code_simp

section \<open>The fetcher falls back to an install\<close>

text \<open>
  Claim C6, as amended.  When the registry path has found a migrations configuration that
  declares a migrations file and the file cannot be read from the packed tarball (the pack
  or the extraction fails), \<open>downloadPackageMigrationsFromRegistry\<close> raises the error
  "Failed to find migrations file ..." and \<open>getPackageMigrationsUsingRegistry\<close> passes
  it on; the \<open>catch\<close> of \<open>fetchMigrations\<close> then falls back to the install, so that
  what \<open>fetch(pkg, version)\<close> produces on cold caches is what
  \<open>getPackageMigrationsUsingInstall(pkg, version)\<close> produces, with \<open>schematics\<close>
  renamed: its manifest, or its error.
\<close>

theorem fetch_falls_back_when_file_missing:
  assumes cold: "migrationsCache f (cacheKey packageName packageVersion) = None"
      "resolvedVersionCache f (cacheKey packageName packageVersion) = None"
    and resolved: "resolvePackageVersionUsingRegistry reg packageName packageVersion = Inr resolvedVersion"
      "migrationsCache f (cacheKey packageName resolvedVersion) = None"
    and config: "getPackageMigrationsConfigFromRegistry reg packageName resolvedVersion = Inr (Some c)"
      "migrations c = Some migrationsFilePath" "migrationsFilePath \<noteq> []"
    and unreadable:
      "(case packageRegistryPack reg packageName resolvedVersion of
          Inl e \<Rightarrow> True
        | Inr tarballPath \<Rightarrow> isl (extractFileFromTarball reg tarballPath migrationsFilePath))"
  shows "getPackageMigrationsUsingRegistry reg packageName resolvedVersion =
           Inl (migrations_file_missing migrationsFilePath packageName resolvedVersion)
         \<and> fst (nxMigrateFetcher reg f packageName packageVersion) =
           map_sum id rename_schematics (getPackageMigrationsUsingInstall reg packageName packageVersion)"
proof -
  have d: "downloadPackageMigrationsFromRegistry reg packageName resolvedVersion migrationsFilePath
             (nx_packageGroup c) =
           Inl (migrations_file_missing migrationsFilePath packageName resolvedVersion)"
    using unreadable
    by (auto simp: downloadPackageMigrationsFromRegistry_def isl_def split: sum.splits)
  have r: "getPackageMigrationsUsingRegistry reg packageName resolvedVersion =
           Inl (migrations_file_missing migrationsFilePath packageName resolvedVersion)"
    using config d by (simp add: getPackageMigrationsUsingRegistry_def truthy_def)
  have "fst (fetchMigrations reg f packageName packageVersion) =
          getPackageMigrationsUsingInstall reg packageName packageVersion"
    using cold resolved r
    by (cases "resolvedVersion = packageVersion") (auto simp: fetchMigrations_def Let_def)
  then have "fst (nxMigrateFetcher reg f packageName packageVersion) =
           map_sum id rename_schematics (getPackageMigrationsUsingInstall reg packageName packageVersion)"
    using cold(1) by (cases "fetchMigrations reg f packageName packageVersion")
      (simp add: nxMigrateFetcher_def Let_def)
  with r show ?thesis by simp
qed

theorem fetch_falls_back_when_file_missing_witness:
  "migrationsCache new_Fetcher (cacheKey ''pkg'' ''2.0.0'') = None
   \<and> resolvedVersionCache new_Fetcher (cacheKey ''pkg'' ''2.0.0'') = None
   \<and> resolvePackageVersionUsingRegistry registry_missing_file ''pkg'' ''2.0.0'' = Inr ''2.0.0''
   \<and> isl (extractFileFromTarball registry_missing_file ''pkg.tgz'' ''./migrations.json'')
   \<and> getPackageMigrationsUsingRegistry registry_missing_file ''pkg'' ''2.0.0'' =
       Inl (migrations_file_missing ''./migrations.json'' ''pkg'' ''2.0.0'')
   \<and> fst (nxMigrateFetcher registry_missing_file new_Fetcher ''pkg'' ''2.0.0'') =
       map_sum id rename_schematics
         (getPackageMigrationsUsingInstall registry_missing_file ''pkg'' ''2.0.0'')
   \<and> getPackageMigrationsUsingInstall registry_missing_file ''pkg'' ''2.0.0'' =
       Inr (empty_configuration ''2.0.0'')"
proof -
  let ?c = "\<lparr> migrations = Some ''./migrations.json'', nx_packageGroup = None \<rparr>"
  have cold: "migrationsCache new_Fetcher (cacheKey ''pkg'' ''2.0.0'') = None"
    "resolvedVersionCache new_Fetcher (cacheKey ''pkg'' ''2.0.0'') = None"
    by (simp_all add: new_Fetcher_def)
  have resolved: "resolvePackageVersionUsingRegistry registry_missing_file ''pkg'' ''2.0.0'' = Inr ''2.0.0''"
    by (simp add: registry_missing_file_def)
  have config: "getPackageMigrationsConfigFromRegistry registry_missing_file ''pkg'' ''2.0.0'' = Inr (Some ?c)"
    "migrations ?c = Some ''./migrations.json''" "''./migrations.json'' \<noteq> []"
    by (simp_all add: registry_missing_file_def)
  have x: "isl (extractFileFromTarball registry_missing_file ''pkg.tgz'' ''./migrations.json'')"
    by (simp add: registry_missing_file_def)
  then have unreadable: "(case packageRegistryPack registry_missing_file ''pkg'' ''2.0.0'' of
          Inl e \<Rightarrow> True
        | Inr tarballPath \<Rightarrow> isl (extractFileFromTarball registry_missing_file tarballPath ''./migrations.json''))"
    by (simp add: registry_missing_file_def)
  have i: "getPackageMigrationsUsingInstall registry_missing_file ''pkg'' ''2.0.0'' =
       Inr (empty_configuration ''2.0.0'')"
    by (simp add: getPackageMigrationsUsingInstall_def registry_missing_file_def truthy_def
        empty_configuration_def)
  from fetch_falls_back_when_file_missing[OF cold resolved cold(1) config unreadable] cold resolved x i
  show ?thesis by simp
qed

text \<open>
  The claim as stated, that \<open>fetch\<close> produces the structured error, fails: here the
  file is missing from the tarball, the error is raised inside the fetcher, and
  \<open>fetch\<close> resolves with the manifest of the install.
\<close>

theorem fetch_missing_file_counterexample:
  "getPackageMigrationsConfigFromRegistry registry_missing_file ''pkg'' ''2.0.0'' =
     Inr (Some \<lparr> migrations = Some ''./migrations.json'', nx_packageGroup = None \<rparr>)
   \<and> downloadPackageMigrationsFromRegistry registry_missing_file ''pkg'' ''2.0.0''
         ''./migrations.json'' None =
       Inl (migrations_file_missing ''./migrations.json'' ''pkg'' ''2.0.0'')
   \<and> fst (nxMigrateFetcher registry_missing_file new_Fetcher ''pkg'' ''2.0.0'') =
       Inr (empty_configuration ''2.0.0'')"
  by code_simp

section \<open>A package that is not installed\<close>

lemma populate_begin_not_installed:
  assumes "\<not> truthy (getPkgVersion opts m targetPackage)"
  shows "populate_begin opts m (targetPackage, target) =
           ((targetPackage, target, Finished),
            addPackageJsonUpdate m targetPackage
              (new_update (version target) (or_false (addToPackageJson target))))"
  using assms by (simp add: populate_begin_def Let_def)

text \<open>
  Claim C4, as amended.  \<open>to[pkg]\<close>, when set, replaces the version that is fetched.
  Whenever the installed version of \<open>pkg\<close> is \<open>null\<close>, the planner records for
  \<open>pkg\<close> the update with the version of the target as it was passed, not overridden
  by \<open>to\<close>, and with \<open>target.addToPackageJson || false\<close>, and returns the empty list;
  it does so whatever \<open>fetch\<close> is and however many nested calls it is allowed, so nothing
  is fetched and no further package is entered.
\<close>

theorem populate_not_installed_records_target:
  "(getPkgVersion opts m targetPackage = None \<longrightarrow>
      populatePackageJsonUpdatesAndGetPackagesToCheck n opts m targetPackage target =
        Some (Inr ([], addPackageJsonUpdate m targetPackage
                         (new_update (version target) (or_false (addToPackageJson target)))))
      \<and> populatePackageJsonUpdatesAndGetPackagesToCheck n (opts\<lparr>fetch := f\<rparr>) m targetPackage target =
        populatePackageJsonUpdatesAndGetPackagesToCheck n opts m targetPackage target)
   \<and> (truthy (getPkgVersion opts m targetPackage) \<longrightarrow>
        populate_begin opts m (targetPackage, target) =
          ((targetPackage, target,
            Awaiting (fetch opts targetPackage
                        (case to opts targetPackage of
                           None \<Rightarrow> version target
                         | Some v \<Rightarrow> if v = [] then version target else v))),
           m))"
proof (intro conjI impI)
  assume n: "getPkgVersion opts m targetPackage = None"
  then have a: "\<not> truthy (getPkgVersion opts m targetPackage)"
    by (simp add: truthy_def)
  then show "populatePackageJsonUpdatesAndGetPackagesToCheck n opts m targetPackage target =
        Some (Inr ([], addPackageJsonUpdate m targetPackage
                         (new_update (version target) (or_false (addToPackageJson target)))))"
    by (simp add: populatePackageJsonUpdatesAndGetPackagesToCheck_def populate_begin_not_installed
        resume_started_def)
  have "\<not> truthy (getPkgVersion (opts\<lparr>fetch := f\<rparr>) m targetPackage)"
    using a by (simp add: getPkgVersion_def)
  then show "populatePackageJsonUpdatesAndGetPackagesToCheck n (opts\<lparr>fetch := f\<rparr>) m targetPackage target =
        populatePackageJsonUpdatesAndGetPackagesToCheck n opts m targetPackage target"
    using a
    by (simp add: populatePackageJsonUpdatesAndGetPackagesToCheck_def populate_begin_not_installed
        resume_started_def)
next
  assume "truthy (getPkgVersion opts m targetPackage)"
  then show "populate_begin opts m (targetPackage, target) =
          ((targetPackage, target,
            Awaiting (fetch opts targetPackage
                        (case to opts targetPackage of
                           None \<Rightarrow> version target
                         | Some v \<Rightarrow> if v = [] then version target else v))),
           m)"
    by (auto simp: populate_begin_def Let_def truthy_def split: option.splits)
qed

theorem populate_not_installed_records_target_witness:
  "getPkgVersion opts_pinned (new_Migrator opts_pinned) ''q'' = None
   \<and> to opts_pinned ''q'' = Some ''3.0.0''
   \<and> populatePackageJsonUpdatesAndGetPackagesToCheck 0 opts_pinned (new_Migrator opts_pinned) ''q''
        (new_update ''2.0.0'' (AddTo dependencies_t)) =
       Some (Inr ([], (new_Migrator opts_pinned)
                        \<lparr>plan := [(''q'', new_update ''2.0.0'' (AddTo dependencies_t))]\<rparr>))
   \<and> truthy (getPkgVersion opts_pinned (new_Migrator opts_pinned) ''p'')
   \<and> populate_begin opts_pinned (new_Migrator opts_pinned) (''p'', new_update ''2.0.0'' AddFalse) =
       ((''p'', new_update ''2.0.0'' AddFalse, Awaiting (Inl (Error ''offline''))),
        new_Migrator opts_pinned)"
proof -
  have h: "getPkgVersion opts_pinned (new_Migrator opts_pinned) ''q'' = None"
    "truthy (getPkgVersion opts_pinned (new_Migrator opts_pinned) ''p'')"
    by (simp_all add: getPkgVersion_def opts_pinned_def new_Migrator_def truthy_def)
  have t: "to opts_pinned ''q'' = Some ''3.0.0''" "fetch opts_pinned = (\<lambda>pkg v. Inl (Error ''offline''))"
    by (simp_all add: opts_pinned_def)
  have a: "addPackageJsonUpdate (new_Migrator opts_pinned) ''q''
             (new_update (version (new_update ''2.0.0'' (AddTo dependencies_t)))
                (or_false (addToPackageJson (new_update ''2.0.0'' (AddTo dependencies_t))))) =
           (new_Migrator opts_pinned)\<lparr>plan := [(''q'', new_update ''2.0.0'' (AddTo dependencies_t))]\<rparr>"
    by (simp add: addPackageJsonUpdate_def new_Migrator_def new_update_def or_false_def)
  from populate_not_installed_records_target[of opts_pinned "new_Migrator opts_pinned" "''q''" 0
      "new_update ''2.0.0'' (AddTo dependencies_t)"]
    populate_not_installed_records_target[of opts_pinned "new_Migrator opts_pinned" "''p''" 0
      "new_update ''2.0.0'' AddFalse"] h t a
  show ?thesis by simp
qed

text \<open>
  The claim as stated records the version overridden by \<open>to\<close>.  Here \<open>q\<close> is not
  installed and pinned to \<open>3.0.0\<close>, the target is at \<open>2.0.0\<close>, and the plan gets
  \<open>2.0.0\<close>.
\<close>

theorem populate_not_installed_ignores_to_counterexample:
  "getPkgVersion opts_pinned (new_Migrator opts_pinned) ''q'' = None
   \<and> to opts_pinned ''q'' = Some ''3.0.0''
   \<and> map_option (map_sum id (\<lambda>(r, m). (r, map_of (plan m) ''q'')))
        (populatePackageJsonUpdatesAndGetPackagesToCheck 0 opts_pinned (new_Migrator opts_pinned) ''q''
           (new_update ''2.0.0'' (AddTo dependencies_t))) =
       Some (Inr ([], Some (new_update ''2.0.0'' (AddTo dependencies_t))))"
  by (simp add: getPkgVersion_def opts_pinned_def new_Migrator_def truthy_def
      populatePackageJsonUpdatesAndGetPackagesToCheck_def populate_begin_def resume_started_def
      addPackageJsonUpdate_def new_update_def or_false_def)


section \<open>The migrations emitted\<close>

lemma all_or_error_Inr:
  "all_or_error f xs = Inr ys \<Longrightarrow> ys = map (\<lambda>x. projr (f x)) xs \<and> (\<forall>x\<in>set xs. \<not> isl (f x))"
  by (induction xs arbitrary: ys) (auto split: sum.splits)

lemma migrations_of_sound:
  assumes "migrations_of opts m packageName = Inr ms" and "x \<in> set ms"
  shows "package x = packageName
         \<and> (\<exists>currentVersion u v.
               getPkgVersion opts m packageName = Some currentVersion
               \<and> map_of (plan m) packageName = Some u
               \<and> migration_version (migration x) = Some v
               \<and> Migrator_gt v currentVersion
               \<and> Migrator_lte v (version u)
               \<and> areRequirementsMet opts m (migration_requires (migration x)) [])"
  using assms
  by (auto simp: migrations_of_def split: option.splits sum.splits)

lemma areRequirementsMet_no_extra:
  assumes "areRequirementsMet opts m (Some reqs) []" and "(pkgName, versionRange) \<in> set reqs"
  shows "(truthy (getPkgVersion opts m pkgName)
            \<and> satisfies opts (getPkgVersion opts m pkgName) versionRange)
         \<or> (\<exists>u. map_of (plan m) pkgName = Some u
                 \<and> satisfies opts (Some (version u)) versionRange)"
  using assms
  by (auto simp: areRequirementsMet_def requirement_met_def list_all_iff
      split: if_splits option.splits)

text \<open>
  Claim C1.  Every migration that \<open>createMigrateJson\<close> emits, for its package \<open>p\<close>:
  \<open>p\<close> is installed and planned, the version of the migration is strictly greater than
  the installed version of \<open>p\<close> and at most the planned version of \<open>p\<close>, both
  under \<open>Migrator.gt\<close> and \<open>Migrator.lte\<close> on normalized versions, and
  \<open>areRequirementsMet\<close> holds of its \<open>requires\<close> in the state the list is built from:
  for each required package, its installed version or its planned version satisfies the
  range.
\<close>

theorem createMigrateJson_emits_only_applicable:
  assumes "createMigrateJson opts m = Inr emitted" and "x \<in> set emitted"
  shows "\<exists>installed planned v.
           getPkgVersion opts m (package x) = Some installed
           \<and> map_of (plan m) (package x) = Some planned
           \<and> migration_version (migration x) = Some v
           \<and> Migrator_gt v installed
           \<and> Migrator_lte v (version planned)
           \<and> areRequirementsMet opts m (migration_requires (migration x)) []
           \<and> (\<forall>(pkgName, versionRange)
                  \<in> set (case migration_requires (migration x) of None \<Rightarrow> [] | Some r \<Rightarrow> r).
                 (truthy (getPkgVersion opts m pkgName)
                    \<and> satisfies opts (getPkgVersion opts m pkgName) versionRange)
                 \<or> (\<exists>u. map_of (plan m) pkgName = Some u
                         \<and> satisfies opts (Some (version u)) versionRange))"
proof -
  from assms(1) obtain mss where mss: "all_or_error (migrations_of opts m) (map fst (plan m)) = Inr mss"
    and e: "emitted = concat mss"
    by (auto simp: createMigrateJson_def split: sum.splits)
  from all_or_error_Inr[OF mss] assms(2) e
  obtain p where p: "p \<in> set (map fst (plan m))" "\<not> isl (migrations_of opts m p)"
    "x \<in> set (projr (migrations_of opts m p))"
    by auto
  then obtain ms where ms: "migrations_of opts m p = Inr ms" "x \<in> set ms"
    by (cases "migrations_of opts m p") auto
  from migrations_of_sound[OF ms] obtain installed planned v where s:
    "package x = p" "getPkgVersion opts m p = Some installed" "map_of (plan m) p = Some planned"
    "migration_version (migration x) = Some v" "Migrator_gt v installed"
    "Migrator_lte v (version planned)"
    "areRequirementsMet opts m (migration_requires (migration x)) []"
    by blast
  have "(truthy (getPkgVersion opts m pkgName)
            \<and> satisfies opts (getPkgVersion opts m pkgName) versionRange)
         \<or> (\<exists>u. map_of (plan m) pkgName = Some u
                 \<and> satisfies opts (Some (version u)) versionRange)"
    if "(pkgName, versionRange) \<in> set (case migration_requires (migration x) of None \<Rightarrow> [] | Some r \<Rightarrow> r)"
    for pkgName versionRange
  proof (cases "migration_requires (migration x)")
    case None
    with that show ?thesis by simp
  next
    case (Some r)
    with that s(7) show ?thesis
      using areRequirementsMet_no_extra[of opts m r pkgName versionRange] by simp
  qed
  with s show ?thesis by auto
qed

theorem createMigrateJson_emits_only_applicable_witness:
  "createMigrateJson opts_group m_planned =
     Inr [\<lparr> package = ''a'', name = ''update-a'', migration = plain_generator ''1.5.0'' None \<rparr>,
          needs_b,
          \<lparr> package = ''b'', name = ''update-b'', migration = plain_generator ''2.0.0'' None \<rparr>]
   \<and> (\<exists>installed planned v.
         getPkgVersion opts_group m_planned (package needs_b) = Some installed
         \<and> map_of (plan m_planned) (package needs_b) = Some planned
         \<and> migration_version (migration needs_b) = Some v
         \<and> Migrator_gt v installed
         \<and> Migrator_lte v (version planned)
         \<and> areRequirementsMet opts_group m_planned (migration_requires (migration needs_b)) [])"
proof -
  have e: "createMigrateJson opts_group m_planned =
     Inr [\<lparr> package = ''a'', name = ''update-a'', migration = plain_generator ''1.5.0'' None \<rparr>,
          needs_b,
          \<lparr> package = ''b'', name = ''update-b'', migration = plain_generator ''2.0.0'' None \<rparr>]"
    by code_simp
  have x: "needs_b \<in> set [\<lparr> package = ''a'', name = ''update-a'', migration = plain_generator ''1.5.0'' None \<rparr>,
          needs_b,
          \<lparr> package = ''b'', name = ''update-b'', migration = plain_generator ''2.0.0'' None \<rparr>]"
    by simp
  from createMigrateJson_emits_only_applicable[OF e x] e show ?thesis
    by blast
qed

section \<open>The traversal ends\<close>

subsection \<open>More nested calls allowed, same result\<close>






subsection \<open>What leaves collectedVersions alone\<close>

lemma collectedVersions_addPackageJsonUpdate [simp]:
  "collectedVersions (addPackageJsonUpdate m n u) = collectedVersions m"
  by (simp add: addPackageJsonUpdate_def split: option.splits)

lemma collectedVersions_propagate [simp]:
  "collectedVersions (propagate m p q) = collectedVersions m"
  by (simp add: propagate_def split: option.splits)










subsection \<open>No entry applies below 0.0.0\<close>






lemma shouldCheckUpdates_Nil [simp]: "\<not> shouldCheckUpdates opts []"
  by (simp add: shouldCheckUpdates_def)


subsection \<open>The order of the versions collected\<close>














subsection \<open>One call, up to its nested calls\<close>



lemma foldl_obj_assign_Nil:
  "(foldl (\<lambda>acc c. obj_assign acc (filtered_packages c)) acc ups = []) \<Longrightarrow> acc = []"
proof (induction ups arbitrary: acc)
  case Nil
  then show ?case by simp
next
  case (Cons u ups)
  then have "obj_assign acc (filtered_packages u) = []" by simp
  moreover have "obj_assign a b = [] \<Longrightarrow> a = []" for a b :: "(string \<times> PackageJsonUpdateForPackage) list"
  proof (induction b arbitrary: a)
    case Nil
    then show ?case by (simp add: obj_assign_def)
  next
    case (Cons kv b)
    obtain k v where "kv = (k, v)" by (cases kv)
    with Cons.prems have "obj_assign (obj_set a k v) b = []" by (simp add: obj_assign_def)
    then have "obj_set a k v = []" by (rule Cons.IH)
    then show ?case by (cases a) (auto split: if_splits)
  qed
  ultimately show ?case by blast
qed




subsection \<open>Calls in sequence\<close>


lemma run_all_Nil_result:
  "run_all f m [] = Some (Inr (rs, m')) \<Longrightarrow> rs = [] \<and> m' = m"
  by simp

subsection \<open>The nested calls of populate end\<close>





subsection \<open>The walk over the packages to check ends\<close>
















end
